theory Spec2Isabelle
  imports Complex_Main
begin

section \<open>Floating-point values\<close>

text \<open>
  The arrays of \<^verbatim>\<open>main.py\<close> hold IEEE doubles. A value is a number, one of the two
  infinities, or NaN (the "unknown" marker of the laser ranges). Comparisons and the NaN
  tests below are those of IEEE 754. Arithmetic on numbers is exact (no rounding, no
  overflow, one zero): the properties proved about arithmetic results say which operations
  are applied to which operands.
\<close>

datatype npfloat = Num real | PosInf | NegInf | NaN

fun isnan :: "npfloat \<Rightarrow> bool" where
  "isnan NaN = True"
| "isnan _ = False"

text \<open>\<^verbatim>\<open>x <= y\<close>: false as soon as one side is NaN.\<close>

fun fle :: "npfloat \<Rightarrow> npfloat \<Rightarrow> bool" where
  "fle NaN _ = False"
| "fle _ NaN = False"
| "fle NegInf _ = True"
| "fle _ PosInf = True"
| "fle PosInf _ = False"
| "fle _ NegInf = False"
| "fle (Num x) (Num y) = (x \<le> y)"

definition fge :: "npfloat \<Rightarrow> npfloat \<Rightarrow> bool" where
  "fge x y = fle y x"

definition flt :: "npfloat \<Rightarrow> npfloat \<Rightarrow> bool" where
  "flt x y = (fle x y \<and> \<not> fle y x)"

fun fneg :: "npfloat \<Rightarrow> npfloat" where
  "fneg (Num x) = Num (- x)"
| "fneg PosInf = NegInf"
| "fneg NegInf = PosInf"
| "fneg NaN = NaN"

fun fadd :: "npfloat \<Rightarrow> npfloat \<Rightarrow> npfloat" where
  "fadd NaN _ = NaN"
| "fadd _ NaN = NaN"
| "fadd (Num x) (Num y) = Num (x + y)"
| "fadd PosInf NegInf = NaN"
| "fadd NegInf PosInf = NaN"
| "fadd PosInf _ = PosInf"
| "fadd NegInf _ = NegInf"
| "fadd (Num x) y = y"

definition fsub :: "npfloat \<Rightarrow> npfloat \<Rightarrow> npfloat" where
  "fsub x y = fadd x (fneg y)"

text \<open>The sign of a value that is not NaN: negative or not.\<close>

fun fnegative :: "npfloat \<Rightarrow> bool" where
  "fnegative (Num x) = (x < 0)"
| "fnegative NegInf = True"
| "fnegative _ = False"

definition signed_inf :: "bool \<Rightarrow> npfloat" where
  "signed_inf negative = (if negative then NegInf else PosInf)"

fun fmul :: "npfloat \<Rightarrow> npfloat \<Rightarrow> npfloat" where
  "fmul NaN _ = NaN"
| "fmul _ NaN = NaN"
| "fmul (Num x) (Num y) = Num (x * y)"
| "fmul (Num x) y = (if x = 0 then NaN else signed_inf (fnegative (Num x) \<noteq> fnegative y))"
| "fmul x (Num y) = (if y = 0 then NaN else signed_inf (fnegative x \<noteq> fnegative (Num y)))"
| "fmul x y = signed_inf (fnegative x \<noteq> fnegative y)"

fun fdiv :: "npfloat \<Rightarrow> npfloat \<Rightarrow> npfloat" where
  "fdiv NaN _ = NaN"
| "fdiv _ NaN = NaN"
| "fdiv (Num x) (Num y) =
     (if y = 0 then (if x = 0 then NaN else signed_inf (x < 0)) else Num (x / y))"
| "fdiv (Num x) y = Num 0"
| "fdiv x (Num y) = signed_inf (fnegative x \<noteq> fnegative (Num y))"
| "fdiv x y = NaN"

fun fsqrt :: "npfloat \<Rightarrow> npfloat" where
  "fsqrt (Num x) = (if x < 0 then NaN else Num (sqrt x))"
| "fsqrt PosInf = PosInf"
| "fsqrt _ = NaN"

fun fcos :: "npfloat \<Rightarrow> npfloat" where
  "fcos (Num x) = Num (cos x)"
| "fcos _ = NaN"

fun fsin :: "npfloat \<Rightarrow> npfloat" where
  "fsin (Num x) = Num (sin x)"
| "fsin _ = NaN"

text \<open>\<^verbatim>\<open>x ** 2\<close>.\<close>

definition fsquare :: "npfloat \<Rightarrow> npfloat" where
  "fsquare x = fmul x x"

text \<open>\<^verbatim>\<open>np.minimum\<close>, the binary operation behind \<^verbatim>\<open>ndarray.min\<close>: NaN wins.\<close>

definition fminimum :: "npfloat \<Rightarrow> npfloat \<Rightarrow> npfloat" where
  "fminimum x y = (if isnan x then x else if isnan y then y else if fle x y then x else y)"

section \<open>Exceptions, log lines and arrays\<close>

datatype pyexc = StopIteration | FileNotFoundError | IndexError | KeyError | ValueError

text \<open>A call that may raise, followed by the rest of the function body: an exception
  ends the body.\<close>

definition bind_exc :: "pyexc + 'a \<Rightarrow> ('a \<Rightarrow> pyexc + 'b) \<Rightarrow> pyexc + 'b" where
  "bind_exc m body = (case m of Inl e \<Rightarrow> Inl e | Inr x \<Rightarrow> body x)"

text \<open>
  A log line is the list of its whitespace-separated tokens. A token is either the text of
  a number, given by the value Python's \<^verbatim>\<open>float\<close> reads from it, or any other word.
  The float converter of \<^verbatim>\<open>np.genfromtxt\<close> is called in its loose mode: a word that
  is not a number is converted to NaN. The interface names are words. No token holds the
  character \<^verbatim>\<open>#\<close>, where \<^verbatim>\<open>np.genfromtxt\<close> would cut the line as a comment.
\<close>

datatype token = Word string | Number npfloat

fun tok_float :: "token \<Rightarrow> npfloat" where
  "tok_float (Number x) = x"
| "tok_float (Word w) = NaN"

type_synonym line = "token list"

text \<open>
  What \<^verbatim>\<open>np.genfromtxt\<close> returns: the parsed rows after \<^verbatim>\<open>np.squeeze\<close>, so no
  row gives an empty one-dimensional array and a single row gives a one-dimensional array.
\<close>

datatype ndarray = Arr0 npfloat | Arr1 "npfloat list" | Arr2 "npfloat list list"

definition squeeze :: "npfloat list list \<Rightarrow> ndarray" where
  "squeeze rows =
     (case rows of
        [] \<Rightarrow> Arr1 []
      | [r] \<Rightarrow> (case r of [x] \<Rightarrow> Arr0 x | _ \<Rightarrow> Arr1 r)
      | _ \<Rightarrow> if list_all (\<lambda>r. length r = 1) rows then Arr1 (map hd rows) else Arr2 rows)"

text \<open>
  \<^verbatim>\<open>np.genfromtxt(lines, usecols=...)\<close> for a non-empty column list: lines without
  tokens are skipped, a line too short for a selected column makes the call raise, and the
  selected tokens are converted.
\<close>

definition genfromtxt :: "line list \<Rightarrow> nat list \<Rightarrow> pyexc + ndarray" where
  "genfromtxt lines usecols =
     (let rows = filter (\<lambda>l. l \<noteq> []) lines in
      if list_ex (\<lambda>l. list_ex (\<lambda>c. length l \<le> c) usecols) rows then Inl ValueError
      else Inr (squeeze (map (\<lambda>l. map (\<lambda>c. tok_float (l ! c)) usecols) rows)))"

text \<open>\<^verbatim>\<open>list(range(a, b))\<close>.\<close>

definition py_range :: "nat \<Rightarrow> nat \<Rightarrow> nat list" where
  "py_range a b = [a..<b]"

text \<open>\<^verbatim>\<open>next(lines)\<close> on the line iterator: the lines left, or StopIteration.\<close>

definition next_line :: "line list \<Rightarrow> pyexc + line list" where
  "next_line lines = (case lines of [] \<Rightarrow> Inl StopIteration | _ # rest \<Rightarrow> Inr rest)"

text \<open>The slices \<^verbatim>\<open>arr[:, :n]\<close>, \<^verbatim>\<open>arr[:, k::2]\<close> and \<^verbatim>\<open>arr[:, k]\<close>.\<close>

fun every_other :: "'a list \<Rightarrow> 'a list" where
  "every_other [] = []"
| "every_other [x] = [x]"
| "every_other (x # y # xs) = x # every_other xs"

definition cols_upto :: "nat \<Rightarrow> ndarray \<Rightarrow> pyexc + npfloat list list" where
  "cols_upto n arr = (case arr of Arr2 rows \<Rightarrow> Inr (map (take n) rows) | _ \<Rightarrow> Inl IndexError)"

definition cols_from_step2 :: "nat \<Rightarrow> ndarray \<Rightarrow> pyexc + npfloat list list" where
  "cols_from_step2 k arr =
     (case arr of Arr2 rows \<Rightarrow> Inr (map (\<lambda>r. every_other (drop k r)) rows) | _ \<Rightarrow> Inl IndexError)"

text \<open>The rows of an operand of \<^verbatim>\<open>np.hstack\<close> beside column vectors.\<close>

definition rows2 :: "ndarray \<Rightarrow> pyexc + npfloat list list" where
  "rows2 arr = (case arr of Arr2 rows \<Rightarrow> Inr rows | _ \<Rightarrow> Inl ValueError)"

definition col :: "nat \<Rightarrow> ndarray \<Rightarrow> pyexc + npfloat list" where
  "col k arr =
     (case arr of
        Arr2 rows \<Rightarrow> if list_ex (\<lambda>r. length r \<le> k) rows then Inl IndexError
                     else Inr (map (\<lambda>r. r ! k) rows)
      | _ \<Rightarrow> Inl IndexError)"

section \<open>The laser table\<close>

record laser_row =
  l_time :: npfloat
  scan_id :: int
  min_angle :: npfloat
  max_angle :: npfloat
  resolution :: npfloat
  max_range :: npfloat
  count :: int
  ranges :: "npfloat list"
  intensities :: "npfloat list"

text \<open>
  \<^verbatim>\<open>astype("int64")\<close> on a float column: pandas refuses NaN and the infinities, and
  the cast drops the fraction. Values beyond the 64-bit range are kept as they are.
\<close>

fun to_int64 :: "npfloat \<Rightarrow> pyexc + int" where
  "to_int64 (Num x) = Inr (if 0 \<le> x then \<lfloor>x\<rfloor> else \<lceil>x\<rceil>)"
| "to_int64 _ = Inl ValueError"

text \<open>One row \<^verbatim>\<open>[*m, r, i]\<close> of the data frame, with the two integer casts.\<close>

definition laser_frame_row :: "npfloat list \<times> npfloat list \<times> npfloat list \<Rightarrow> pyexc + laser_row" where
  "laser_frame_row mri =
     (case mri of (m, r, i) \<Rightarrow>
        bind_exc (to_int64 (m ! 1)) (\<lambda>sid.
        bind_exc (to_int64 (m ! 6)) (\<lambda>cnt.
          Inr \<lparr>l_time = m ! 0, scan_id = sid, min_angle = m ! 2, max_angle = m ! 3,
               resolution = m ! 4, max_range = m ! 5, count = cnt,
               ranges = r, intensities = i\<rparr>)))"

text \<open>Running a fallible function over a list: the first exception, or all results.\<close>

fun sequence :: "(pyexc + 'a) list \<Rightarrow> pyexc + 'a list" where
  "sequence [] = Inr []"
| "sequence (x # xs) = bind_exc x (\<lambda>v. bind_exc (sequence xs) (\<lambda>vs. Inr (v # vs)))"

text \<open>\<^verbatim>\<open>np.where(r >= max_range, np.nan, r)\<close>.\<close>

definition where_ge_nan :: "npfloat \<Rightarrow> npfloat list \<Rightarrow> npfloat list" where
  "where_ge_nan mr r = map (\<lambda>x. if fge x mr then NaN else x) r"

definition get_laser_data :: "line list \<Rightarrow> pyexc + laser_row list" where
  "get_laser_data laser_lines =
     bind_exc (next_line laser_lines) (\<lambda>data_lines.
     bind_exc (genfromtxt data_lines (0 # py_range 7 735)) (\<lambda>laser_readings.
     bind_exc (cols_upto 7 laser_readings) (\<lambda>metadata.
     bind_exc (cols_from_step2 7 laser_readings) (\<lambda>rngs.
     bind_exc (cols_from_step2 8 laser_readings) (\<lambda>ints.
     bind_exc (sequence (map laser_frame_row (zip metadata (zip rngs ints)))) (\<lambda>laser_data.
       (case laser_data of
          [] \<Rightarrow> Inl KeyError
        | first # _ \<Rightarrow>
            Inr (map (\<lambda>row. row\<lparr>ranges := where_ge_nan (max_range first) (ranges row)\<rparr>)
                   laser_data))))))))"

section \<open>The position table\<close>

record position_row =
  p_time :: npfloat
  px :: npfloat
  py :: npfloat
  pa :: npfloat
  vx :: npfloat
  vy :: npfloat
  va :: npfloat
  scalar_speed :: npfloat
  a_col :: npfloat
  distance_to_target :: npfloat

text \<open>\<^verbatim>\<open>np.diff\<close> on one axis: \<^verbatim>\<open>out[i] = xs[i + 1] - xs[i]\<close>.\<close>

definition diff :: "npfloat list \<Rightarrow> npfloat list" where
  "diff xs = map (\<lambda>(x, y). fsub y x) (zip xs (tl xs))"

text \<open>\<^verbatim>\<open>np.sqrt((x - cx) ** 2 + (y - cy) ** 2)\<close>; the speed is the case \<^verbatim>\<open>cx = cy = 0\<close>
  without the subtraction.\<close>

definition hypot_sq :: "npfloat \<Rightarrow> npfloat \<Rightarrow> npfloat" where
  "hypot_sq x y = fsqrt (fadd (fsquare x) (fsquare y))"

text \<open>One row of \<^verbatim>\<open>np.hstack((position_readings, scalar_speed, a, distance_to_target))\<close>
  under the ten column names.\<close>

definition position_frame_row ::
  "npfloat list \<times> npfloat \<times> npfloat \<times> npfloat \<Rightarrow> position_row" where
  "position_frame_row rsad =
     (case rsad of (r, s, acc, d) \<Rightarrow>
        \<lparr>p_time = r ! 0, px = r ! 1, py = r ! 2, pa = r ! 3, vx = r ! 4, vy = r ! 5, va = r ! 6,
         scalar_speed = s, a_col = acc, distance_to_target = d\<rparr>)"

definition get_position_data ::
  "line list \<Rightarrow> npfloat \<times> npfloat \<Rightarrow> pyexc + position_row list" where
  "get_position_data position_lines target_position =
     bind_exc (next_line position_lines) (\<lambda>data_lines.
     bind_exc (genfromtxt data_lines [0, 7, 8, 9, 10, 11, 12]) (\<lambda>position_readings.
     bind_exc (col 4 position_readings) (\<lambda>vxs.
     bind_exc (col 5 position_readings) (\<lambda>vys.
     let speeds = map (\<lambda>(x, y). hypot_sq x y) (zip vxs vys) in
     bind_exc (col 0 position_readings) (\<lambda>time_col.
     let accs = Num 0 # map (\<lambda>(ds, dt). fdiv ds dt) (zip (diff speeds) (diff time_col)) in
     (case target_position of (target_x, target_y) \<Rightarrow>
     bind_exc (col 1 position_readings) (\<lambda>pxs.
     bind_exc (col 2 position_readings) (\<lambda>pys.
     let dists = map (\<lambda>(x, y). hypot_sq (fsub x target_x) (fsub y target_y)) (zip pxs pys) in
     bind_exc (rows2 position_readings) (\<lambda>rows.
       Inr (map position_frame_row (zip rows (zip speeds (zip accs dists)))))))))))))"

section \<open>The obstacle table\<close>

record obstacle_row =
  o_time :: npfloat
  obs_x :: "npfloat list"
  obs_y :: "npfloat list"
  distance_to_nearest_obstacle :: npfloat

text \<open>A two-dimensional array: its rows and its second dimension (the first one is the
  number of rows).\<close>

datatype array2 = Array2 (shape1: nat) (arows: "npfloat list list")

definition shape0 :: "array2 \<Rightarrow> nat" where
  "shape0 A = length (arows A)"

text \<open>
  \<^verbatim>\<open>np.linspace(start, stop, num)\<close>: a negative \<^verbatim>\<open>num\<close> raises; the samples are
  \<^verbatim>\<open>arange(num) * step + start\<close> with the last one set to \<^verbatim>\<open>stop\<close>, and with one
  sample or none the multiplier is \<^verbatim>\<open>stop - start\<close> itself.
\<close>

definition linspace :: "npfloat \<Rightarrow> npfloat \<Rightarrow> int \<Rightarrow> pyexc + npfloat list" where
  "linspace start stop num =
     (if num < 0 then Inl ValueError
      else
        let n = nat num;
            delta = fsub stop start;
            step = (if 1 < n then fdiv delta (Num (real (n - 1))) else delta);
            y = map (\<lambda>i. fadd (fmul (Num (real i)) step) start) [0..<n]
        in Inr (if 1 < n then y[n - 1 := stop] else y))"

text \<open>\<^verbatim>\<open>xs.repeat(n).reshape((-1, n))\<close>: one row of \<^verbatim>\<open>n\<close> copies per entry; with
  \<^verbatim>\<open>n = 0\<close> the reshape cannot find the other dimension and raises.\<close>

definition repeat_reshape :: "npfloat list \<Rightarrow> nat \<Rightarrow> pyexc + array2" where
  "repeat_reshape xs n = (if n = 0 then Inl ValueError else Inr (Array2 n (map (replicate n) xs)))"

text \<open>\<^verbatim>\<open>np.stack\<close> of the rows' arrays: they must be there and have one length.\<close>

definition stack :: "npfloat list list \<Rightarrow> pyexc + array2" where
  "stack rs =
     (case rs of
        [] \<Rightarrow> Inl ValueError
      | r # _ \<Rightarrow> if list_all (\<lambda>x. length x = length r) rs then Inr (Array2 (length r) rs)
                  else Inl ValueError)"

text \<open>
  Broadcasting of two two-dimensional operands: along each axis the two sizes are equal or
  one of them is 1 (that operand is then read at index 0), anything else raises.
\<close>

definition bdim :: "nat \<Rightarrow> nat \<Rightarrow> pyexc + nat" where
  "bdim m n = (if m = n then Inr m else if m = 1 then Inr n else if n = 1 then Inr m
               else Inl ValueError)"

definition bget :: "array2 \<Rightarrow> nat \<Rightarrow> nat \<Rightarrow> npfloat" where
  "bget A i j = arows A ! (if shape0 A = 1 then 0 else i) ! (if shape1 A = 1 then 0 else j)"

definition broadcast2 ::
  "(npfloat \<Rightarrow> npfloat \<Rightarrow> npfloat) \<Rightarrow> array2 \<Rightarrow> array2 \<Rightarrow> pyexc + array2" where
  "broadcast2 f A B =
     bind_exc (bdim (shape0 A) (shape0 B)) (\<lambda>m.
     bind_exc (bdim (shape1 A) (shape1 B)) (\<lambda>n.
       Inr (Array2 n (map (\<lambda>i. map (\<lambda>j. f (bget A i j) (bget B i j)) [0..<n]) [0..<m]))))"

definition amap :: "(npfloat \<Rightarrow> npfloat) \<Rightarrow> array2 \<Rightarrow> array2" where
  "amap f A = Array2 (shape1 A) (map (map f) (arows A))"

text \<open>A two-dimensional array plus a one-dimensional one of the same row length.\<close>

definition add_row :: "array2 \<Rightarrow> npfloat list \<Rightarrow> array2" where
  "add_row A v = Array2 (shape1 A) (map (\<lambda>r. map (\<lambda>(x, y). fadd x y) (zip r v)) (arows A))"

definition polar_to_cartesian :: "array2 \<Rightarrow> array2 \<Rightarrow> pyexc + array2 \<times> array2" where
  "polar_to_cartesian r theta =
     bind_exc (broadcast2 fmul r (amap fcos theta)) (\<lambda>x.
     bind_exc (broadcast2 fmul r (amap fsin theta)) (\<lambda>y. Inr (x, y)))"

text \<open>\<^verbatim>\<open>row.min(initial=i, where=~np.isnan(row))\<close>.\<close>

definition min_where_not_nan :: "npfloat \<Rightarrow> npfloat list \<Rightarrow> npfloat" where
  "min_where_not_nan i row = fold (\<lambda>x acc. if isnan x then acc else fminimum acc x) row i"

definition obstacle_frame_row ::
  "npfloat \<times> npfloat list \<times> npfloat list \<times> npfloat \<Rightarrow> obstacle_row" where
  "obstacle_frame_row txyd =
     (case txyd of (t, x, y, d) \<Rightarrow>
        \<lparr>o_time = t, obs_x = x, obs_y = y, distance_to_nearest_obstacle = d\<rparr>)"

definition get_obstacle_data ::
  "position_row list \<Rightarrow> laser_row list \<Rightarrow> pyexc + obstacle_row list" where
  "get_obstacle_data position_data laser_data =
     (case laser_data of [] \<Rightarrow> Inl KeyError | laser_reading # _ \<Rightarrow>
     bind_exc (linspace (min_angle laser_reading) (max_angle laser_reading)
                 (count laser_reading)) (\<lambda>laser_angles.
     bind_exc (repeat_reshape (map pa position_data) (length laser_angles)) (\<lambda>pas.
     let angles = add_row pas laser_angles in
     bind_exc (stack (map ranges laser_data)) (\<lambda>rngs.
     bind_exc (polar_to_cartesian rngs angles) (\<lambda>(obs_relative_x, obs_relative_y).
     let row_size = shape1 obs_relative_x in
     bind_exc (repeat_reshape (map px position_data) row_size) (\<lambda>pxs.
     bind_exc (broadcast2 fadd pxs obs_relative_x) (\<lambda>xs.
     bind_exc (repeat_reshape (map py position_data) row_size) (\<lambda>pys.
     bind_exc (broadcast2 fadd pys obs_relative_y) (\<lambda>ys.
     let dists = map (min_where_not_nan (Num 8)) (arows rngs) in
       Inr (map obstacle_frame_row
              (zip (map l_time laser_data) (zip (arows xs) (zip (arows ys) dists)))))))))))))"

section \<open>One log, and the grouping of the logs\<close>

record log_metadata =
  index :: int
  path :: string
  algorithm :: string
  difficulty :: string

record log_data =
  metadata :: log_metadata
  laser_data :: "laser_row list"
  position_data :: "position_row list"
  obstacle_data :: "obstacle_row list"

text \<open>The files of the log directory: the lines of each path that can be opened.\<close>

type_synonym files = "string \<rightharpoonup> line list"

definition read_log :: "files \<Rightarrow> string \<Rightarrow> string \<Rightarrow> pyexc + line list" where
  "read_log fs log_file interface =
     (case fs log_file of
        None \<Rightarrow> Inl FileNotFoundError
      | Some f \<Rightarrow> Inr (filter (\<lambda>splits. 3 < length splits \<and> splits ! 3 = Word interface) f))"

definition get_log_data :: "files \<Rightarrow> log_metadata \<Rightarrow> pyexc + log_data" where
  "get_log_data fs md =
     bind_exc (read_log fs (path md) ''laser'') (\<lambda>laser_lines.
     bind_exc (get_laser_data laser_lines) (\<lambda>ld.
     let target_position =
           (if difficulty md = ''realistic'' then (Num (- 1), Num 6)
            else (Num (- 8), Num (- 7.5))) in
     bind_exc (read_log fs (path md) ''position2d'') (\<lambda>position_lines.
     bind_exc (get_position_data position_lines target_position) (\<lambda>pd.
     bind_exc (get_obstacle_data pd ld) (\<lambda>od.
       Inr \<lparr>metadata = md, laser_data = ld, position_data = pd, obstacle_data = od\<rparr>)))))"

text \<open>\<^verbatim>\<open>itertools.groupby\<close>: the runs of consecutive elements with one key, in order.\<close>

fun groupby :: "'a list \<Rightarrow> ('a \<Rightarrow> 'k) \<Rightarrow> ('k \<times> 'a list) list" where
  "groupby [] f = []"
| "groupby (x # xs) f =
     (case groupby xs f of
        [] \<Rightarrow> [(f x, [x])]
      | (k, g) # rest \<Rightarrow> if f x = k then (k, x # g) # rest else (f x, [x]) # (k, g) # rest)"

text \<open>The dictionary comprehension over the runs: a later run replaces an earlier one of
  the same key.\<close>

definition group_by :: "'a list \<Rightarrow> ('a \<Rightarrow> 'k) \<Rightarrow> ('k \<rightharpoonup> 'a list)" where
  "group_by iterable key_function =
     fold (\<lambda>(k, g) d. d(k \<mapsto> g)) (groupby iterable key_function) Map.empty"

text \<open>The two-level dictionary that \<^verbatim>\<open>process_log_dir\<close> builds.\<close>

definition group_by_algorithm_and_difficulty ::
  "log_data list \<Rightarrow> (string \<rightharpoonup> (string \<rightharpoonup> log_data list))" where
  "group_by_algorithm_and_difficulty logs_data =
     (let grouped_by_algorithm = group_by logs_data (\<lambda>ld. algorithm (metadata ld)) in
      (\<lambda>alg. case grouped_by_algorithm alg of
                None \<Rightarrow> None
              | Some logs \<Rightarrow> Some (group_by logs (\<lambda>ld. difficulty (metadata ld)))))"

text \<open>The records filed under one algorithm and one difficulty.\<close>

definition bucket :: "log_data list \<Rightarrow> string \<Rightarrow> string \<Rightarrow> log_data list" where
  "bucket logs_data alg dif =
     (case group_by_algorithm_and_difficulty logs_data alg of
        None \<Rightarrow> []
      | Some by_difficulty \<Rightarrow> (case by_difficulty dif of None \<Rightarrow> [] | Some logs \<Rightarrow> logs))"

section \<open>Example logs\<close>

text \<open>
  A line of a Player log: the time, the host, the robot port, the interface name, the
  device index, the message type and subtype, then the fields of the message. A laser
  message has the scan number, the two angle bounds, the resolution, the maximum range and
  the beam count, then one (range, intensity) pair per beam; the examples give every beam
  the intensity 0.
\<close>

definition log_line :: "string \<Rightarrow> npfloat \<Rightarrow> npfloat list \<Rightarrow> line" where
  "log_line interface t vals =
     Number t # Number (Num 16777343) # Number (Num 6665) # Word interface #
     Number (Num 0) # Number (Num 1) # Number (Num 1) # map Number vals"

definition laser_log_line :: "npfloat \<Rightarrow> npfloat list \<Rightarrow> npfloat list \<Rightarrow> line" where
  "laser_log_line t meta rs = log_line ''laser'' t (meta @ concat (map (\<lambda>r. [r, Num 0]) rs))"

text \<open>A laser log of a header and two scans of 361 beams with the maximum range 8: the
  first scan has a beam below the maximum range, one at it and one above it.\<close>

definition example_laser_lines :: "line list" where
  "example_laser_lines =
     [log_line ''laser'' (Num 0) [],
      laser_log_line (Num 0.1) [Num 1, Num (- 1.5708), Num 1.5708, Num 0.0087, Num 8, Num 361]
        (Num 3 # Num 8 # Num 9 # replicate 358 (Num 5)),
      laser_log_line (Num 0.2) [Num 2, Num (- 1.5708), Num 1.5708, Num 0.0087, Num 8, Num 361]
        (replicate 361 (Num 8))]"

definition example_laser_table :: "laser_row list" where
  "example_laser_table =
     [\<lparr>l_time = Num 0.1, scan_id = 1, min_angle = Num (- 1.5708), max_angle = Num 1.5708,
       resolution = Num 0.0087, max_range = Num 8, count = 361,
       ranges = Num 3 # NaN # NaN # replicate 358 (Num 5),
       intensities = replicate 361 (Num 0)\<rparr>,
      \<lparr>l_time = Num 0.2, scan_id = 2, min_angle = Num (- 1.5708), max_angle = Num 1.5708,
       resolution = Num 0.0087, max_range = Num 8, count = 361,
       ranges = replicate 361 NaN,
       intensities = replicate 361 (Num 0)\<rparr>]"

text \<open>The same log with a first scan whose maximum range field reads \<^verbatim>\<open>nan\<close>.\<close>

definition nan_max_range_lines :: "line list" where
  "nan_max_range_lines =
     [log_line ''laser'' (Num 0) [],
      laser_log_line (Num 0.1) [Num 1, Num (- 1.5708), Num 1.5708, Num 0.0087, NaN, Num 361]
        (replicate 361 (Num 5)),
      laser_log_line (Num 0.2) [Num 2, Num (- 1.5708), Num 1.5708, Num 0.0087, Num 8, Num 361]
        (replicate 361 (Num 5))]"

definition nan_max_range_table :: "laser_row list" where
  "nan_max_range_table =
     [\<lparr>l_time = Num 0.1, scan_id = 1, min_angle = Num (- 1.5708), max_angle = Num 1.5708,
       resolution = Num 0.0087, max_range = NaN, count = 361,
       ranges = replicate 361 (Num 5),
       intensities = replicate 361 (Num 0)\<rparr>,
      \<lparr>l_time = Num 0.2, scan_id = 2, min_angle = Num (- 1.5708), max_angle = Num 1.5708,
       resolution = Num 0.0087, max_range = Num 8, count = 361,
       ranges = replicate 361 (Num 5),
       intensities = replicate 361 (Num 0)\<rparr>]"

text \<open>A position log of a header and three samples at the times 0, 1 and 3. A
  position message has the pose \<^verbatim>\<open>px py pa\<close>, the velocities \<^verbatim>\<open>vx vy va\<close> and the
  stall flag.\<close>

definition example_position_lines :: "line list" where
  "example_position_lines =
     [log_line ''position2d'' (Num 0) [],
      log_line ''position2d'' (Num 0) [Num (- 5), Num (- 3.5), Num 0, Num 3, Num 4, Num 0, Num 0],
      log_line ''position2d'' (Num 1) [Num (- 8), Num (- 7.5), Num 0, Num 0, Num 0, Num 0, Num 0],
      log_line ''position2d'' (Num 3) [Num (- 2), Num 0.5, Num 0, Num 6, Num 8, Num 0, Num 0]]"

definition example_position_table :: "position_row list" where
  "example_position_table =
     [\<lparr>p_time = Num 0, px = Num (- 5), py = Num (- 3.5), pa = Num 0, vx = Num 3, vy = Num 4,
       va = Num 0, scalar_speed = Num 5, a_col = Num 0, distance_to_target = Num 5\<rparr>,
      \<lparr>p_time = Num 1, px = Num (- 8), py = Num (- 7.5), pa = Num 0, vx = Num 0, vy = Num 0,
       va = Num 0, scalar_speed = Num 0, a_col = Num (- 5), distance_to_target = Num 0\<rparr>,
      \<lparr>p_time = Num 3, px = Num (- 2), py = Num 0.5, pa = Num 0, vx = Num 6, vy = Num 8,
       va = Num 0, scalar_speed = Num 10, a_col = Num 5, distance_to_target = Num 10\<rparr>]"

text \<open>The position log cut after its second sample, and its table.\<close>

definition short_position_lines :: "line list" where
  "short_position_lines = take 3 example_position_lines"

definition short_position_table :: "position_row list" where
  "short_position_table = take 2 example_position_table"

text \<open>A laser log of a sensor with the maximum range 10: every beam of the first scan
  returns 9, every beam of the second scan reads the maximum range.\<close>

definition far_laser_lines :: "line list" where
  "far_laser_lines =
     [log_line ''laser'' (Num 0) [],
      laser_log_line (Num 0.1) [Num 1, Num (- 1.5708), Num 1.5708, Num 0.0087, Num 10, Num 361]
        (replicate 361 (Num 9)),
      laser_log_line (Num 0.2) [Num 2, Num (- 1.5708), Num 1.5708, Num 0.0087, Num 10, Num 361]
        (replicate 361 (Num 10))]"

definition far_laser_table :: "laser_row list" where
  "far_laser_table =
     [\<lparr>l_time = Num 0.1, scan_id = 1, min_angle = Num (- 1.5708), max_angle = Num 1.5708,
       resolution = Num 0.0087, max_range = Num 10, count = 361,
       ranges = replicate 361 (Num 9),
       intensities = replicate 361 (Num 0)\<rparr>,
      \<lparr>l_time = Num 0.2, scan_id = 2, min_angle = Num (- 1.5708), max_angle = Num 1.5708,
       resolution = Num 0.0087, max_range = Num 10, count = 361,
       ranges = replicate 361 NaN,
       intensities = replicate 361 (Num 0)\<rparr>]"

text \<open>A laser table of two scans of two beams, at the angles 0 and \<open>\<pi> / 2\<close>. The first
  scan has a known and an unknown range, the second one a negative and a positive range.
  Below it, the obstacle table it gives with the two position samples above.\<close>

definition two_beam_scans :: "laser_row list" where
  "two_beam_scans =
     [\<lparr>l_time = Num 0.1, scan_id = 1, min_angle = Num 0, max_angle = Num (pi / 2),
       resolution = Num (pi / 2), max_range = Num 8, count = 2,
       ranges = [Num 3, NaN], intensities = [Num 0, Num 0]\<rparr>,
      \<lparr>l_time = Num 0.2, scan_id = 2, min_angle = Num 0, max_angle = Num (pi / 2),
       resolution = Num (pi / 2), max_range = Num 8, count = 2,
       ranges = [Num (- 1), Num 4], intensities = [Num 0, Num 0]\<rparr>]"

definition two_beam_obstacles :: "obstacle_row list" where
  "two_beam_obstacles =
     [\<lparr>o_time = Num 0.1, obs_x = [Num (- 2), NaN], obs_y = [Num (- 3.5), NaN],
       distance_to_nearest_obstacle = Num 3\<rparr>,
      \<lparr>o_time = Num 0.2, obs_x = [Num (- 9), Num (- 8)], obs_y = [Num (- 7.5), Num (- 3.5)],
       distance_to_nearest_obstacle = Num (- 1)\<rparr>]"




text \<open>A log file holding the laser log and the short position log above, and the metadata
  of that file under a difficulty folder that is not one of the two presets.\<close>

definition example_files :: files where
  "example_files = [''logs/vfh/unheard_of/run.log'' \<mapsto> example_laser_lines @ short_position_lines]"

definition unheard_of_metadata :: log_metadata where
  "unheard_of_metadata =
     \<lparr>index = 1, path = ''logs/vfh/unheard_of/run.log'', algorithm = ''vfh'',
      difficulty = ''unheard_of''\<rparr>"

text \<open>Three records as \<^verbatim>\<open>process_log_dir\<close> collects them from the algorithm folders
  \<^verbatim>\<open>vfh\<close>, \<^verbatim>\<open>nd\<close> and \<^verbatim>\<open>vfh.old\<close>, listed in this order: the stem of the third
  folder name is \<^verbatim>\<open>vfh\<close> again.\<close>

definition log_record :: "string \<Rightarrow> string \<Rightarrow> string \<Rightarrow> log_data" where
  "log_record file alg dif =
     \<lparr>metadata = \<lparr>index = 1, path = file, algorithm = alg, difficulty = dif\<rparr>,
      laser_data = two_beam_scans, position_data = short_position_table,
      obstacle_data = two_beam_obstacles\<rparr>"

definition interleaved_logs :: "log_data list" where
  "interleaved_logs =
     [log_record ''logs/vfh/easy/run.log'' ''vfh'' ''easy'',
      log_record ''logs/nd/easy/run.log'' ''nd'' ''easy'',
      log_record ''logs/vfh.old/easy/run.log'' ''vfh'' ''easy'']"

section \<open>Basic facts\<close>

lemma bind_exc_simps [simp]:
  "bind_exc (Inl e) body = Inl e" "bind_exc (Inr x) body = body x"
  by (simp_all add: bind_exc_def)

lemma bind_exc_Inr_iff: "bind_exc m body = Inr y \<longleftrightarrow> (\<exists>x. m = Inr x \<and> body x = Inr y)"
  by (cases m) simp_all

lemma length_every_other: "length (every_other xs) = (length xs + 1) div 2"
  by (induction xs rule: every_other.induct) simp_all

lemma nth_every_other: "2 * j < length xs \<Longrightarrow> every_other xs ! j = xs ! (2 * j)"
proof (induction xs arbitrary: j rule: every_other.induct)
  case (3 x y xs)
  then show ?case by (cases j) simp_all
qed simp_all

lemma sequence_Inr_iff:
  "sequence (map f xs) = Inr ys \<longleftrightarrow>
     length ys = length xs \<and> (\<forall>i<length xs. f (xs ! i) = Inr (ys ! i))"
proof (induction xs arbitrary: ys)
  case Nil
  then show ?case by auto
next
  case (Cons x xs)
  show ?case
  proof (cases ys)
    case Nil
    then show ?thesis by (auto simp: bind_exc_Inr_iff)
  next
    case (Cons y ys')
    then show ?thesis using Cons.IH [of ys']
      by (auto simp: bind_exc_Inr_iff nth_Cons split: nat.splits)
  qed
qed

lemma squeeze_Arr2:
  "squeeze rows = Arr2 rs \<longleftrightarrow>
     rs = rows \<and> 2 \<le> length rows \<and> \<not> list_all (\<lambda>r. length r = 1) rows"
  by (auto simp: squeeze_def split: list.splits)

lemma genfromtxt_Arr2:
  "genfromtxt ls cols = Inr (Arr2 rows) \<longleftrightarrow>
     (let data = filter (\<lambda>l. l \<noteq> []) ls in
      (\<forall>l\<in>set data. \<forall>c\<in>set cols. c < length l) \<and>
      rows = map (\<lambda>l. map (\<lambda>c. tok_float (l ! c)) cols) data \<and>
      2 \<le> length data \<and> \<not> list_all (\<lambda>r. length r = 1) rows)"
  unfolding genfromtxt_def Let_def list_ex_iff
  by (auto simp: squeeze_Arr2 not_le [symmetric] simp del: not_le not_less)

lemma length_py_range [simp]: "length (py_range a b) = b - a"
  by (simp add: py_range_def)

lemma nth_py_range [simp]: "i < b - a \<Longrightarrow> py_range a b ! i = a + i"
  by (simp add: py_range_def)

lemma set_py_range [simp]: "set (py_range a b) = {a..<b}"
  by (simp add: py_range_def)

lemma cols_upto_Inr: "cols_upto n arr = Inr m \<longleftrightarrow> (\<exists>rows. arr = Arr2 rows \<and> m = map (take n) rows)"
  by (auto simp: cols_upto_def split: ndarray.splits)

lemma cols_from_step2_Inr:
  "cols_from_step2 k arr = Inr m \<longleftrightarrow>
     (\<exists>rows. arr = Arr2 rows \<and> m = map (\<lambda>r. every_other (drop k r)) rows)"
  by (auto simp: cols_from_step2_def split: ndarray.splits)

lemma zip3_map: "zip (map f xs) (zip (map g xs) (map h xs)) = map (\<lambda>x. (f x, g x, h x)) xs"
  by (induction xs) simp_all

lemma get_laser_data_Inr:
  assumes "get_laser_data ls = Inr t"
  defines "data \<equiv> filter (\<lambda>l. l \<noteq> []) (tl ls)"
  defines "sel \<equiv> (\<lambda>l::line. map (\<lambda>c. tok_float (l ! c)) (0 # py_range 7 735))"
  shows "\<exists>raw_table.
            ls \<noteq> [] \<and> 2 \<le> length data \<and> (\<forall>l\<in>set data. 735 \<le> length l) \<and>
            length raw_table = length data \<and>
            (\<forall>i<length data.
               laser_frame_row (take 7 (sel (data ! i)), every_other (drop 7 (sel (data ! i))),
                                every_other (drop 8 (sel (data ! i)))) = Inr (raw_table ! i)) \<and>
            t = map (\<lambda>row. row\<lparr>ranges := where_ge_nan (max_range (hd raw_table)) (ranges row)\<rparr>)
                  raw_table"
proof -
  from assms(1) obtain rest where ls: "next_line ls = Inr rest"
    unfolding get_laser_data_def bind_exc_Inr_iff by blast
  then have h: "ls \<noteq> []" "rest = tl ls"
    by (auto simp: next_line_def split: list.splits)
  from assms(1) ls obtain laser_readings where
    g0: "genfromtxt rest (0 # py_range 7 735) = Inr laser_readings"
    unfolding get_laser_data_def bind_exc_Inr_iff by auto
  from assms(1) ls g0 obtain metadata where m: "cols_upto 7 laser_readings = Inr metadata"
    unfolding get_laser_data_def bind_exc_Inr_iff by auto
  then obtain rows where lr: "laser_readings = Arr2 rows"
    unfolding cols_upto_Inr by blast
  from assms(1) ls g0 lr obtain raw_table where
    s: "sequence (map laser_frame_row
          (zip (map (take 7) rows)
             (zip (map (\<lambda>r. every_other (drop 7 r)) rows)
                  (map (\<lambda>r. every_other (drop 8 r)) rows)))) = Inr raw_table" and
    t: "(case raw_table of [] \<Rightarrow> Inl KeyError
         | first # _ \<Rightarrow> Inr (map (\<lambda>row. row\<lparr>ranges := where_ge_nan (max_range first) (ranges row)\<rparr>) raw_table)) = Inr t"
    unfolding get_laser_data_def
    by (auto simp: bind_exc_Inr_iff cols_upto_def cols_from_step2_def)
  from g0 lr h have g: "genfromtxt (tl ls) (0 # py_range 7 735) = Inr (Arr2 rows)"
    by simp
  have rows: "rows = map sel data" and len: "2 \<le> length data"
    and cols: "\<forall>l\<in>set data. \<forall>c\<in>set (0 # py_range 7 735). c < length l"
    using g [unfolded genfromtxt_Arr2 Let_def] unfolding data_def sel_def by blast+
  have long: "\<forall>l\<in>set data. 735 \<le> length l"
  proof
    fix l assume "l \<in> set data"
    with cols have "734 < length l" by simp
    then show "735 \<le> length l" by simp
  qed
  from s have s': "sequence (map laser_frame_row (map (\<lambda>l. (take 7 (sel l), every_other (drop 7 (sel l)),
         every_other (drop 8 (sel l)))) data)) = Inr raw_table"
    unfolding rows map_map zip3_map comp_def by (simp add: zip3_map [where xs = "map sel data", unfolded map_map comp_def])
  then have lr: "length raw_table = length data"
    and each: "\<forall>i<length data.
       laser_frame_row (take 7 (sel (data ! i)), every_other (drop 7 (sel (data ! i))),
                        every_other (drop 8 (sel (data ! i)))) = Inr (raw_table ! i)"
    unfolding sequence_Inr_iff by simp_all
  from t lr len have "t = map (\<lambda>row. row\<lparr>ranges := where_ge_nan (max_range (hd raw_table)) (ranges row)\<rparr>) raw_table"
    by (cases raw_table) auto
  with h len long lr each show ?thesis
    by (intro exI [of _ raw_table] conjI)
qed

lemma map_nth_py_range:
  "b \<le> length l \<Longrightarrow> map (\<lambda>c. f (l ! c)) (py_range a b) = map f (take (b - a) (drop a l))"
  by (rule nth_equalityI) (auto simp: py_range_def)

lemma every_other_pairs: "every_other (concat (map (\<lambda>r. [r, c]) rs)) = rs"
  by (induction rs) simp_all

lemma every_other_pairs_shifted:
  "every_other (c # concat (map (\<lambda>r. [r, c]) rs)) = replicate (Suc (length rs)) c"
  by (induction rs) simp_all

lemma usecols_nth:
  assumes "s = map (\<lambda>c. tok_float (l ! c)) (0 # py_range 7 735)"
  shows "length s = 729" and "s ! 0 = tok_float (l ! 0)"
    and "0 < k \<Longrightarrow> k < 729 \<Longrightarrow> s ! k = tok_float (l ! (k + 6))"
proof -
  show "length s = 729" "s ! 0 = tok_float (l ! 0)" by (simp_all add: assms)
  assume k: "0 < k" "k < 729"
  then have "(0 # py_range 7 735) ! k = k + 6"
    by (simp add: nth_Cons')
  with k show "s ! k = tok_float (l ! (k + 6))"
    by (simp add: assms add.commute del: nth_Cons_numeral)
qed

lemma laser_frame_row_fields:
  assumes "laser_frame_row (take 7 s, every_other (drop 7 s), every_other (drop 8 s)) = Inr row"
    and "s = map (\<lambda>c. tok_float (l ! c)) (0 # py_range 7 735)"
  shows "l_time row = tok_float (l ! 0) \<and>
         to_int64 (tok_float (l ! 7)) = Inr (scan_id row) \<and>
         min_angle row = tok_float (l ! 8) \<and>
         max_angle row = tok_float (l ! 9) \<and>
         resolution row = tok_float (l ! 10) \<and>
         max_range row = tok_float (l ! 11) \<and>
         to_int64 (tok_float (l ! 12)) = Inr (count row) \<and>
         ranges row = every_other (drop 7 s) \<and>
         intensities row = every_other (drop 8 s)"
proof -
  note u = usecols_nth [OF assms(2)]
  have t7: "s ! 0 = tok_float (l ! 0)" "s ! Suc 0 = tok_float (l ! 7)"
    "s ! 2 = tok_float (l ! 8)" "s ! 3 = tok_float (l ! 9)"
    "s ! 4 = tok_float (l ! 10)" "s ! 5 = tok_float (l ! 11)"
    "s ! 6 = tok_float (l ! 12)"
    using u(2) u(3) [of 1] u(3) [of 2] u(3) [of 3] u(3) [of 4] u(3) [of 5] u(3) [of 6]
    by simp_all
  from assms(1) show ?thesis
    unfolding laser_frame_row_def
    by (auto simp: bind_exc_Inr_iff t7)
qed

lemma sel_ranges_nth:
  assumes "s = map (\<lambda>c. tok_float (l ! c)) (0 # py_range 7 735)" "j < 361"
  shows "every_other (drop 7 s) ! j = tok_float (l ! (13 + 2 * j))"
    and "every_other (drop 8 s) ! j = tok_float (l ! (14 + 2 * j))"
proof -
  note u = usecols_nth [OF assms(1)]
  from assms(2) u(1) have "every_other (drop 7 s) ! j = s ! (7 + 2 * j)"
    by (simp add: nth_every_other)
  also have "\<dots> = tok_float (l ! (13 + 2 * j))"
    using assms(2) u(3) [of "7 + 2 * j"] by (simp add: add.commute)
  finally show "every_other (drop 7 s) ! j = tok_float (l ! (13 + 2 * j))" .
  from assms(2) u(1) have "every_other (drop 8 s) ! j = s ! (8 + 2 * j)"
    by (simp add: nth_every_other)
  also have "\<dots> = tok_float (l ! (14 + 2 * j))"
    using assms(2) u(3) [of "8 + 2 * j"] by (simp add: add.commute)
  finally show "every_other (drop 8 s) ! j = tok_float (l ! (14 + 2 * j))" .
qed

lemma sel_ranges_length:
  assumes "s = map (\<lambda>c. tok_float (l ! c)) (0 # py_range 7 735)"
  shows "length (every_other (drop 7 s)) = 361" "length (every_other (drop 8 s)) = 361"
  by (simp_all add: assms length_every_other)

lemma fle_total: "\<not> isnan x \<Longrightarrow> \<not> isnan y \<Longrightarrow> fle x y \<or> fle y x"
  by (cases x; cases y) auto

lemma not_fge_flt: "\<not> isnan x \<Longrightarrow> \<not> isnan y \<Longrightarrow> \<not> fge x y \<Longrightarrow> flt x y"
  using fle_total [of x y] by (auto simp: fge_def flt_def)

lemma fge_refl: "\<not> isnan x \<Longrightarrow> fge x x"
  by (cases x) (simp_all add: fge_def)

lemma get_laser_data_rows:
  assumes "get_laser_data ls = Inr t"
  defines "data \<equiv> filter (\<lambda>l. l \<noteq> []) (tl ls)"
  shows "length t = length data" and "2 \<le> length t"
    and "i < length t \<Longrightarrow> 735 \<le> length (data ! i)"
    and "i < length t \<Longrightarrow>
           l_time (t ! i) = tok_float (data ! i ! 0) \<and>
           to_int64 (tok_float (data ! i ! 7)) = Inr (scan_id (t ! i)) \<and>
           min_angle (t ! i) = tok_float (data ! i ! 8) \<and>
           max_angle (t ! i) = tok_float (data ! i ! 9) \<and>
           resolution (t ! i) = tok_float (data ! i ! 10) \<and>
           max_range (t ! i) = tok_float (data ! i ! 11) \<and>
           to_int64 (tok_float (data ! i ! 12)) = Inr (count (t ! i)) \<and>
           length (ranges (t ! i)) = 361 \<and> length (intensities (t ! i)) = 361"
    and "i < length t \<Longrightarrow> j < 361 \<Longrightarrow>
           ranges (t ! i) ! j =
             (if fge (tok_float (data ! i ! (13 + 2 * j))) (max_range (t ! 0)) then NaN
              else tok_float (data ! i ! (13 + 2 * j)))"
    and "i < length t \<Longrightarrow> j < 361 \<Longrightarrow>
           intensities (t ! i) ! j = tok_float (data ! i ! (14 + 2 * j))"
proof -
  define sel where "sel = (\<lambda>l::line. map (\<lambda>c. tok_float (l ! c)) (0 # py_range 7 735))"
  from get_laser_data_Inr [OF assms(1)] obtain raw where
    len: "2 \<le> length data" and long: "\<forall>l\<in>set data. 735 \<le> length l" and
    lr: "length raw = length data" and
    each: "\<And>i. i < length data \<Longrightarrow>
       laser_frame_row (take 7 (sel (data ! i)), every_other (drop 7 (sel (data ! i))),
                        every_other (drop 8 (sel (data ! i)))) = Inr (raw ! i)" and
    t: "t = map (\<lambda>row. row\<lparr>ranges := where_ge_nan (max_range (hd raw)) (ranges row)\<rparr>) raw"
    unfolding data_def sel_def by blast
  show lt: "length t = length data" by (simp add: t lr)
  show "2 \<le> length t" using len lt by simp
  show "i < length t \<Longrightarrow> 735 \<le> length (data ! i)" using long lt by simp
  have sel: "\<And>i. sel (data ! i) = map (\<lambda>c. tok_float (data ! i ! c)) (0 # py_range 7 735)"
    by (simp add: sel_def)
  have row: "\<And>i. i < length t \<Longrightarrow>
     t ! i = (raw ! i)\<lparr>ranges := where_ge_nan (max_range (hd raw)) (ranges (raw ! i))\<rparr>"
    by (simp add: t)
  have hd: "hd raw = raw ! 0" using lr len by (cases raw) simp_all
  have f: "\<And>i. i < length t \<Longrightarrow>
           l_time (raw ! i) = tok_float (data ! i ! 0) \<and>
           to_int64 (tok_float (data ! i ! 7)) = Inr (scan_id (raw ! i)) \<and>
           min_angle (raw ! i) = tok_float (data ! i ! 8) \<and>
           max_angle (raw ! i) = tok_float (data ! i ! 9) \<and>
           resolution (raw ! i) = tok_float (data ! i ! 10) \<and>
           max_range (raw ! i) = tok_float (data ! i ! 11) \<and>
           to_int64 (tok_float (data ! i ! 12)) = Inr (count (raw ! i)) \<and>
           ranges (raw ! i) = every_other (drop 7 (sel (data ! i))) \<and>
           intensities (raw ! i) = every_other (drop 8 (sel (data ! i)))"
    using laser_frame_row_fields [OF each sel] lt by simp
  show "i < length t \<Longrightarrow>
           l_time (t ! i) = tok_float (data ! i ! 0) \<and>
           to_int64 (tok_float (data ! i ! 7)) = Inr (scan_id (t ! i)) \<and>
           min_angle (t ! i) = tok_float (data ! i ! 8) \<and>
           max_angle (t ! i) = tok_float (data ! i ! 9) \<and>
           resolution (t ! i) = tok_float (data ! i ! 10) \<and>
           max_range (t ! i) = tok_float (data ! i ! 11) \<and>
           to_int64 (tok_float (data ! i ! 12)) = Inr (count (t ! i)) \<and>
           length (ranges (t ! i)) = 361 \<and> length (intensities (t ! i)) = 361"
    using f [of i] by (simp add: row where_ge_nan_def sel_ranges_length [OF sel])
  have "0 < length t" using len lt by (cases data) simp_all
  from row [OF this] have mr: "max_range (hd raw) = max_range (t ! 0)"
    by (simp add: hd)
  show "i < length t \<Longrightarrow> j < 361 \<Longrightarrow>
           ranges (t ! i) ! j =
             (if fge (tok_float (data ! i ! (13 + 2 * j))) (max_range (t ! 0)) then NaN
              else tok_float (data ! i ! (13 + 2 * j)))"
    using f [of i] sel_ranges_nth(1) [OF sel, of j i]
    by (simp add: row where_ge_nan_def sel_ranges_length [OF sel] mr)
  show "i < length t \<Longrightarrow> j < 361 \<Longrightarrow>
           intensities (t ! i) ! j = tok_float (data ! i ! (14 + 2 * j))"
    using f [of i] sel_ranges_nth(2) [OF sel, of j i]
    by (simp add: row)
qed

lemma length_pairs: "length (concat (map (\<lambda>r. [r, c]) rs)) = 2 * length rs"
  by (induction rs) simp_all

lemma every_other_pairs_tl:
  "every_other (drop 1 (concat (map (\<lambda>r. [r, c]) rs))) = replicate (length rs) c"
  by (cases rs) (simp_all add: every_other_pairs_shifted)

lemma map_tok_float_Number: "map tok_float (map Number xs) = xs"
  by (induction xs) simp_all

lemma length_laser_log_line:
  "length (laser_log_line t meta rs) = 7 + length meta + 2 * length rs"
  by (simp add: laser_log_line_def log_line_def length_pairs)

lemma sel_laser_log_line:
  assumes "length meta = 6" "length rs = 361"
  shows "map (\<lambda>c. tok_float (laser_log_line t meta rs ! c)) (0 # py_range 7 735) =
         t # meta @ concat (map (\<lambda>r. [r, Num 0]) rs)"
proof -
  define vals where "vals = meta @ concat (map (\<lambda>r. [r, Num 0]) rs)"
  have lv: "length vals = 728" by (simp add: vals_def length_pairs assms)
  have l: "laser_log_line t meta rs = log_line ''laser'' t vals"
    by (simp add: laser_log_line_def vals_def)
  have "735 \<le> length (log_line ''laser'' t vals)"
    by (simp add: log_line_def lv)
  then have "map (\<lambda>c. tok_float (log_line ''laser'' t vals ! c)) (py_range 7 735) =
      map tok_float (take (735 - 7) (drop 7 (log_line ''laser'' t vals)))"
    by (rule map_nth_py_range)
  also have "drop 7 (log_line ''laser'' t vals) = map Number vals"
    by (simp add: log_line_def)
  also have "take (735 - 7) (map Number vals) = map Number vals"
    by (simp add: lv)
  also have "map tok_float (map Number vals) = vals"
    by (rule map_tok_float_Number)
  finally have "map (\<lambda>c. tok_float (log_line ''laser'' t vals ! c)) (py_range 7 735) = vals" .
  moreover have "tok_float (log_line ''laser'' t vals ! 0) = t"
    by (simp add: log_line_def)
  ultimately show ?thesis
    unfolding l vals_def [symmetric] by simp
qed

lemma laser_frame_row_example:
  assumes "v = t # [Num (real_of_int s), mn, mx, re, mr, Num (real_of_int c)] @
                 concat (map (\<lambda>r. [r, Num 0]) rs)"
    and "length rs = 361"
  shows "laser_frame_row (take 7 v, every_other (drop 7 v), every_other (drop 8 v)) =
         Inr \<lparr>l_time = t, scan_id = s, min_angle = mn, max_angle = mx, resolution = re,
              max_range = mr, count = c, ranges = rs, intensities = replicate 361 (Num 0)\<rparr>"
proof -
  have "every_other (drop 1 (concat (map (\<lambda>r. [r, Num 0]) rs))) = replicate 361 (Num 0)"
    by (simp only: every_other_pairs_tl assms)
  then show ?thesis
    by (simp add: assms(1) laser_frame_row_def every_other_pairs)
qed

lemma get_laser_data_example:
  assumes "length rs1 = 361" "length rs2 = 361"
  shows "get_laser_data
           [hdr,
            laser_log_line t1 [Num (real_of_int s1), mn1, mx1, re1, mr1, Num (real_of_int c1)] rs1,
            laser_log_line t2 [Num (real_of_int s2), mn2, mx2, re2, mr2, Num (real_of_int c2)] rs2] =
         Inr [\<lparr>l_time = t1, scan_id = s1, min_angle = mn1, max_angle = mx1, resolution = re1,
               max_range = mr1, count = c1, ranges = where_ge_nan mr1 rs1,
               intensities = replicate 361 (Num 0)\<rparr>,
              \<lparr>l_time = t2, scan_id = s2, min_angle = mn2, max_angle = mx2, resolution = re2,
               max_range = mr2, count = c2, ranges = where_ge_nan mr1 rs2,
               intensities = replicate 361 (Num 0)\<rparr>]"
proof -
  define l1 where "l1 = laser_log_line t1 [Num (real_of_int s1), mn1, mx1, re1, mr1, Num (real_of_int c1)] rs1"
  define l2 where "l2 = laser_log_line t2 [Num (real_of_int s2), mn2, mx2, re2, mr2, Num (real_of_int c2)] rs2"
  define v1 where "v1 = t1 # [Num (real_of_int s1), mn1, mx1, re1, mr1, Num (real_of_int c1)] @
                 concat (map (\<lambda>r. [r, Num 0]) rs1)"
  define v2 where "v2 = t2 # [Num (real_of_int s2), mn2, mx2, re2, mr2, Num (real_of_int c2)] @
                 concat (map (\<lambda>r. [r, Num 0]) rs2)"
  have len: "length l1 = 735" "length l2 = 735"
    by (simp_all add: l1_def l2_def length_laser_log_line assms)
  then have ne: "l1 \<noteq> []" "l2 \<noteq> []" by auto
  have sel: "map (\<lambda>c. tok_float (l1 ! c)) (0 # py_range 7 735) = v1"
    "map (\<lambda>c. tok_float (l2 ! c)) (0 # py_range 7 735) = v2"
    unfolding l1_def l2_def v1_def v2_def by (rule sel_laser_log_line; simp add: assms)+
  have lv: "length v1 = 729" "length v2 = 729"
    by (simp_all add: v1_def v2_def length_pairs assms)
  have "genfromtxt [l1, l2] (0 # py_range 7 735) =
      Inr (squeeze [map (\<lambda>c. tok_float (l1 ! c)) (0 # py_range 7 735),
                 map (\<lambda>c. tok_float (l2 ! c)) (0 # py_range 7 735)])"
    by (simp add: genfromtxt_def ne len list_ex_iff)
  then have g: "genfromtxt [l1, l2] (0 # py_range 7 735) = Inr (Arr2 [v1, v2])"
    unfolding sel by (simp add: squeeze_def lv)
  note r1 = laser_frame_row_example [OF v1_def assms(1)]
  note r2 = laser_frame_row_example [OF v2_def assms(2)]
  show ?thesis
    unfolding get_laser_data_def l1_def [symmetric] l2_def [symmetric]
    by (simp add: next_line_def g cols_upto_def cols_from_step2_def r1 r2)
qed

lemma example_laser_table_built:
  "get_laser_data example_laser_lines = Inr example_laser_table"
  unfolding example_laser_lines_def example_laser_table_def
  using get_laser_data_example [of "Num 3 # Num 8 # Num 9 # replicate 358 (Num 5)"
      "replicate 361 (Num 8)" "log_line ''laser'' (Num 0) []" "Num 0.1" 1 "Num (- 1.5708)"
      "Num 1.5708" "Num 0.0087" "Num 8" 361 "Num 0.2" 2 "Num (- 1.5708)"
      "Num 1.5708" "Num 0.0087" "Num 8" 361]
  by (simp add: where_ge_nan_def fge_def)

lemma nan_max_range_table_built:
  "get_laser_data nan_max_range_lines = Inr nan_max_range_table"
  unfolding nan_max_range_lines_def nan_max_range_table_def
  using get_laser_data_example [of "replicate 361 (Num 5)"
      "replicate 361 (Num 5)" "log_line ''laser'' (Num 0) []" "Num 0.1" 1 "Num (- 1.5708)"
      "Num 1.5708" "Num 0.0087" "NaN" 361 "Num 0.2" 2 "Num (- 1.5708)"
      "Num 1.5708" "Num 0.0087" "Num 8" 361]
  by (simp add: where_ge_nan_def fge_def)

section \<open>Sentinel replacement in the laser table\<close>

text \<open>
  Claim C1, as the code has it. In every table that \<^verbatim>\<open>get_laser_data\<close> builds, the
  range of beam \<open>j\<close> of scan \<open>i\<close> is the value of column \<open>13 + 2 j\<close> of data line \<open>i\<close>,
  replaced by NaN exactly when it compares greater than or equal to the maximum range of the
  first row; every other value is kept as it is. When that maximum range is a number (not
  NaN itself), every range of the table is therefore NaN or strictly below it, and a range
  equal to it has become NaN.
\<close>

theorem get_laser_data_sentinel:
  assumes "get_laser_data laser_lines = Inr t"
  shows "let data = filter (\<lambda>l. l \<noteq> []) (tl laser_lines); mr = max_range (t ! 0) in
           length t = length data \<and> mr = tok_float (data ! 0 ! 11) \<and>
           (\<forall>i<length t. length (ranges (t ! i)) = 361 \<and>
              (\<forall>j<361. ranges (t ! i) ! j =
                 (let x = tok_float (data ! i ! (13 + 2 * j)) in if fge x mr then NaN else x))) \<and>
           (\<not> isnan mr \<longrightarrow> (\<forall>row\<in>set t. \<forall>x\<in>set (ranges row). isnan x \<or> flt x mr))"
proof -
  define data where "data = filter (\<lambda>l. l \<noteq> []) (tl laser_lines)"
  define mr where "mr = max_range (t ! 0)"
  note r = get_laser_data_rows [OF assms, folded data_def mr_def]
  have pos: "0 < length t" using r(2) by (cases t) simp_all
  have a: "length t = length data" by (rule r(1))
  have b: "mr = tok_float (data ! 0 ! 11)" using r(4) [OF pos] by (simp add: mr_def)
  have c: "\<forall>i<length t. length (ranges (t ! i)) = 361 \<and>
              (\<forall>j<361. ranges (t ! i) ! j =
                 (let x = tok_float (data ! i ! (13 + 2 * j)) in if fge x mr then NaN else x))"
    using r(4) r(5) by (simp add: Let_def)
  have d: "\<not> isnan mr \<longrightarrow> (\<forall>row\<in>set t. \<forall>x\<in>set (ranges row). isnan x \<or> flt x mr)"
  proof (intro impI ballI)
    fix row x assume mr: "\<not> isnan mr" and "row \<in> set t" and "x \<in> set (ranges row)"
    then obtain i j where i: "i < length t" "row = t ! i"
      and j: "j < length (ranges row)" "x = ranges row ! j"
      by (auto simp: in_set_conv_nth)
    with c have "j < 361" by simp
    with c i j have "x = (let y = tok_float (data ! i ! (13 + 2 * j)) in if fge y mr then NaN else y)"
      by simp
    then show "isnan x \<or> flt x mr"
      using mr not_fge_flt [of "tok_float (data ! i ! (13 + 2 * j))" mr]
      by (auto simp: Let_def split: if_splits)
  qed
  from a b c d show ?thesis
    unfolding Let_def data_def [symmetric] mr_def [symmetric] by blast
qed

theorem get_laser_data_sentinel_witness:
  "get_laser_data example_laser_lines = Inr example_laser_table \<and>
   tok_float (example_laser_lines ! 1 ! 13) = Num 3 \<and>
   tok_float (example_laser_lines ! 1 ! 15) = Num 8 \<and>
   tok_float (example_laser_lines ! 1 ! 17) = Num 9 \<and>
   max_range (example_laser_table ! 0) = Num 8 \<and>
   ranges (example_laser_table ! 0) ! 0 = Num 3 \<and>
   ranges (example_laser_table ! 0) ! 1 = NaN \<and>
   ranges (example_laser_table ! 0) ! 2 = NaN \<and>
   flt (ranges (example_laser_table ! 0) ! 0) (max_range (example_laser_table ! 0))"
proof -
  note s = get_laser_data_sentinel [OF example_laser_table_built, unfolded Let_def]
  have l: "length example_laser_table = 2" by (simp add: example_laser_table_def)
  have m: "max_range (example_laser_table ! 0) = Num 8" by (simp add: example_laser_table_def)
  have r: "ranges (example_laser_table ! 0) = Num 3 # NaN # NaN # replicate 358 (Num 5)"
    by (simp add: example_laser_table_def)
  have row: "example_laser_table ! 0 \<in> set example_laser_table"
    by (simp add: example_laser_table_def)
  note s [THEN conjunct2, THEN conjunct2, THEN conjunct2]
  then have "\<forall>row\<in>set example_laser_table. \<forall>x\<in>set (ranges row). isnan x \<or> flt x (Num 8)"
    unfolding m by simp
  with row have "\<forall>x\<in>set (ranges (example_laser_table ! 0)). isnan x \<or> flt x (Num 8)"
    by blast
  then have f: "flt (Num 3) (Num 8)" unfolding r by simp
  have t: "tok_float (example_laser_lines ! 1 ! 13) = Num 3"
   "tok_float (example_laser_lines ! 1 ! 15) = Num 8"
   "tok_float (example_laser_lines ! 1 ! 17) = Num 9"
    by (simp_all add: example_laser_lines_def laser_log_line_def log_line_def)
  show ?thesis using example_laser_table_built m f t by (simp add: r)
qed

text \<open>
  The claim as written fails when the maximum range field of the first scan is NaN: the
  comparison is then false for every beam, nothing is replaced, and the ranges kept are
  neither NaN nor below the maximum range.
\<close>

theorem max_range_nan_counterexample:
  "get_laser_data nan_max_range_lines = Inr nan_max_range_table \<and>
   \<not> (isnan (ranges (nan_max_range_table ! 0) ! 0) \<or>
      flt (ranges (nan_max_range_table ! 0) ! 0) (max_range (nan_max_range_table ! 0)))"
  using nan_max_range_table_built by (simp add: nan_max_range_table_def flt_def)

section \<open>The columns of a laser line\<close>

text \<open>
  Claim C6, as the code has it. \<^verbatim>\<open>get_laser_data\<close> reads column 0 and columns 7 to 734
  of every data line and nothing else. Column 0 is the time; of the columns 7 to 734 the
  first six (7 to 12) are the scalar fields scan number, minimum angle, maximum angle,
  resolution, maximum range and count, so that the time and these six make the seven
  metadata values; the 722 columns left are 361 (range, intensity) pairs, the range of beam
  \<open>j\<close> in column \<open>13 + 2 j\<close> and its intensity in column \<open>14 + 2 j\<close>. A range is
  stored after the sentinel replacement.
\<close>

theorem get_laser_data_columns:
  assumes "get_laser_data laser_lines = Inr t"
  shows "let data = filter (\<lambda>l. l \<noteq> []) (tl laser_lines) in
           length t = length data \<and>
           (\<forall>i<length t.
              735 \<le> length (data ! i) \<and>
              l_time (t ! i) = tok_float (data ! i ! 0) \<and>
              to_int64 (tok_float (data ! i ! 7)) = Inr (scan_id (t ! i)) \<and>
              min_angle (t ! i) = tok_float (data ! i ! 8) \<and>
              max_angle (t ! i) = tok_float (data ! i ! 9) \<and>
              resolution (t ! i) = tok_float (data ! i ! 10) \<and>
              max_range (t ! i) = tok_float (data ! i ! 11) \<and>
              to_int64 (tok_float (data ! i ! 12)) = Inr (count (t ! i)) \<and>
              length (ranges (t ! i)) = 361 \<and> length (intensities (t ! i)) = 361 \<and>
              (\<forall>j<361.
                 ranges (t ! i) ! j =
                   (let x = tok_float (data ! i ! (13 + 2 * j))
                    in if fge x (max_range (t ! 0)) then NaN else x) \<and>
                 intensities (t ! i) ! j = tok_float (data ! i ! (14 + 2 * j))))"
proof -
  define data where "data = filter (\<lambda>l. l \<noteq> []) (tl laser_lines)"
  note r = get_laser_data_rows [OF assms, folded data_def]
  show ?thesis
    unfolding Let_def data_def [symmetric]
    using r(1) r(3) r(4) r(5) r(6) by simp
qed

lemma example_data_lines:
  "filter (\<lambda>l. l \<noteq> []) (tl example_laser_lines) = tl example_laser_lines"
  by (simp add: example_laser_lines_def laser_log_line_def log_line_def)

theorem get_laser_data_columns_witness:
  "get_laser_data example_laser_lines = Inr example_laser_table \<and>
   length example_laser_table = length (tl example_laser_lines) \<and>
   735 \<le> length (tl example_laser_lines ! 1) \<and>
   l_time (example_laser_table ! 1) = tok_float (tl example_laser_lines ! 1 ! 0) \<and>
   max_range (example_laser_table ! 1) = tok_float (tl example_laser_lines ! 1 ! 11) \<and>
   to_int64 (tok_float (tl example_laser_lines ! 1 ! 12)) = Inr (count (example_laser_table ! 1)) \<and>
   length (ranges (example_laser_table ! 1)) = 361 \<and>
   length (intensities (example_laser_table ! 1)) = 361 \<and>
   intensities (example_laser_table ! 1) ! 360 = tok_float (tl example_laser_lines ! 1 ! 734)"
proof -
  note c = get_laser_data_columns [OF example_laser_table_built, unfolded Let_def example_data_lines]
  have l: "length example_laser_table = 2" by (simp add: example_laser_table_def)
  from c have len: "length example_laser_table = length (tl example_laser_lines)" by blast
  from c l have row:
    "735 \<le> length (tl example_laser_lines ! 1) \<and>
     l_time (example_laser_table ! 1) = tok_float (tl example_laser_lines ! 1 ! 0) \<and>
     max_range (example_laser_table ! 1) = tok_float (tl example_laser_lines ! 1 ! 11) \<and>
     to_int64 (tok_float (tl example_laser_lines ! 1 ! 12)) = Inr (count (example_laser_table ! 1)) \<and>
     length (ranges (example_laser_table ! 1)) = 361 \<and>
     length (intensities (example_laser_table ! 1)) = 361 \<and>
     (\<forall>j<361. intensities (example_laser_table ! 1) ! j =
        tok_float (tl example_laser_lines ! 1 ! (14 + 2 * j)))"
    by simp
  then have "intensities (example_laser_table ! 1) ! 360 =
        tok_float (tl example_laser_lines ! 1 ! (14 + 2 * 360))"
    by simp
  with row len example_laser_table_built show ?thesis by simp
qed

text \<open>
  The claim as written takes the first seven values of the columns 7 to 734 for scalar
  metadata and starts the pairs after them. In the code the seventh of these values, column
  13, is the range of the first beam and column 14 its intensity, and the ranges and
  intensities together take 722 columns, not the 721 that seven scalar fields would leave.
\<close>

theorem seventh_field_is_range_counterexample:
  "get_laser_data example_laser_lines = Inr example_laser_table \<and>
   tok_float (example_laser_lines ! 1 ! 13) = Num 3 \<and>
   tok_float (example_laser_lines ! 1 ! 14) = Num 0 \<and>
   ranges (example_laser_table ! 0) ! 0 = Num 3 \<and>
   intensities (example_laser_table ! 0) ! 0 = Num 0 \<and>
   length (ranges (example_laser_table ! 0)) + length (intensities (example_laser_table ! 0)) = 722"
  using example_laser_table_built
  by (simp add: example_laser_table_def)
     (simp add: example_laser_lines_def laser_log_line_def log_line_def)

section \<open>The position table and its acceleration column\<close>

lemma col_Inr:
  "col k arr = Inr v \<longleftrightarrow>
     (\<exists>rows. arr = Arr2 rows \<and> (\<forall>r\<in>set rows. k < length r) \<and> v = map (\<lambda>r. r ! k) rows)"
  unfolding col_def list_ex_iff
  by (auto simp: not_le [symmetric] simp del: not_le not_less split: ndarray.splits)

lemma zip_map_same: "zip (map f xs) (map g xs) = map (\<lambda>x. (f x, g x)) xs"
  by (induction xs) simp_all

lemma length_diff [simp]: "length (diff xs) = length xs - 1"
  by (simp add: diff_def)

lemma nth_diff: "Suc k < length xs \<Longrightarrow> diff xs ! k = fsub (xs ! Suc k) (xs ! k)"
  by (simp add: diff_def nth_tl)

lemma get_position_data_Inr:
  assumes "get_position_data ls target = Inr t"
  defines "data \<equiv> filter (\<lambda>l. l \<noteq> []) (tl ls)"
  defines "rows \<equiv> map (\<lambda>l. map (\<lambda>c. tok_float (l ! c)) [0, 7, 8, 9, 10, 11, 12]) data"
  defines "speeds \<equiv> map (\<lambda>r. hypot_sq (r ! 4) (r ! 5)) rows"
  defines "accs \<equiv> Num 0 # map (\<lambda>(ds, dt). fdiv ds dt)
                               (zip (diff speeds) (diff (map (\<lambda>r. r ! 0) rows)))"
  defines "dists \<equiv> map (\<lambda>r. hypot_sq (fsub (r ! 1) (fst target)) (fsub (r ! 2) (snd target))) rows"
  shows "ls \<noteq> []" and "2 \<le> length data" and "\<forall>l\<in>set data. 12 < length l"
    and "t = map position_frame_row (zip rows (zip speeds (zip accs dists)))"
proof -
  from assms(1) obtain rest where ls: "next_line ls = Inr rest"
    unfolding get_position_data_def bind_exc_Inr_iff by blast
  then have h: "ls \<noteq> []" "rest = tl ls"
    by (auto simp: next_line_def split: list.splits)
  show "ls \<noteq> []" by (rule h)
  from assms(1) ls obtain position_readings where
    g0: "genfromtxt rest [0, 7, 8, 9, 10, 11, 12] = Inr position_readings"
    unfolding get_position_data_def bind_exc_Inr_iff by auto
  from assms(1) ls g0 obtain vxs where "col 4 position_readings = Inr vxs"
    unfolding get_position_data_def bind_exc_Inr_iff by auto
  then obtain rows' where pr: "position_readings = Arr2 rows'"
    unfolding col_Inr by blast
  from g0 pr h have g: "genfromtxt (tl ls) [0, 7, 8, 9, 10, 11, 12] = Inr (Arr2 rows')"
    by simp
  have rows': "rows' = rows" and len: "2 \<le> length data"
    and cols: "\<forall>l\<in>set data. \<forall>c\<in>set [0, 7, 8, 9, 10, 11, 12]. c < length l"
    using g [unfolded genfromtxt_Arr2 Let_def] unfolding data_def rows_def by blast+
  show "2 \<le> length data" by (rule len)
  from cols show "\<forall>l\<in>set data. 12 < length l" by simp
  have w: "\<forall>r\<in>set rows. length r = 7" by (auto simp: rows_def)
  have c: "\<And>k. k < 7 \<Longrightarrow> col k (Arr2 rows) = Inr (map (\<lambda>r. r ! k) rows)"
    unfolding col_Inr using w by simp
  obtain tx ty where t: "target = (tx, ty)" by (cases target)
  from assms(1) show "t = map position_frame_row (zip rows (zip speeds (zip accs dists)))"
    unfolding get_position_data_def speeds_def accs_def dists_def
    by (simp add: t ls g0 pr rows' c Let_def rows2_def zip_map_same comp_def)
qed

lemma sqrt_of_square: "0 \<le> y \<Longrightarrow> y * y = x \<Longrightarrow> sqrt x = (y::real)"
  by (auto simp: real_sqrt_mult)

lemma hypot_sq_Num: "hypot_sq (Num x) (Num y) = Num (sqrt (x * x + y * y))"
  by (simp add: hypot_sq_def fsquare_def not_less)

lemma sqrt_examples: "sqrt 25 = 5" "sqrt 100 = 10"
  by (rule sqrt_of_square; simp)+

lemma example_position_table_built:
  "get_position_data example_position_lines (Num (- 8), Num (- 7.5)) = Inr example_position_table"
  unfolding get_position_data_def example_position_lines_def example_position_table_def
  by (simp add: next_line_def genfromtxt_def log_line_def squeeze_def col_def rows2_def
      position_frame_row_def diff_def hypot_sq_Num fsub_def sqrt_examples)

lemma get_position_data_rows:
  assumes "get_position_data ls target = Inr t"
  defines "data \<equiv> filter (\<lambda>l. l \<noteq> []) (tl ls)"
  shows "length t = length data" and "2 \<le> length t"
    and "i < length t \<Longrightarrow>
           p_time (t ! i) = tok_float (data ! i ! 0) \<and>
           px (t ! i) = tok_float (data ! i ! 7) \<and>
           py (t ! i) = tok_float (data ! i ! 8) \<and>
           pa (t ! i) = tok_float (data ! i ! 9) \<and>
           vx (t ! i) = tok_float (data ! i ! 10) \<and>
           vy (t ! i) = tok_float (data ! i ! 11) \<and>
           va (t ! i) = tok_float (data ! i ! 12) \<and>
           scalar_speed (t ! i) = hypot_sq (vx (t ! i)) (vy (t ! i)) \<and>
           distance_to_target (t ! i) =
             hypot_sq (fsub (px (t ! i)) (fst target)) (fsub (py (t ! i)) (snd target))"
    and "a_col (t ! 0) = Num 0"
    and "0 < i \<Longrightarrow> i < length t \<Longrightarrow>
           a_col (t ! i) =
             fdiv (fsub (scalar_speed (t ! i)) (scalar_speed (t ! (i - 1))))
                  (fsub (p_time (t ! i)) (p_time (t ! (i - 1))))"
proof -
  define rows where "rows = map (\<lambda>l. map (\<lambda>c. tok_float (l ! c)) [0, 7, 8, 9, 10, 11, 12]) data"
  define speeds where "speeds = map (\<lambda>r. hypot_sq (r ! 4) (r ! 5)) rows"
  define accs where "accs = Num 0 # map (\<lambda>(ds, dt). fdiv ds dt)
                               (zip (diff speeds) (diff (map (\<lambda>r. r ! 0) rows)))"
  define dists where "dists =
     map (\<lambda>r. hypot_sq (fsub (r ! 1) (fst target)) (fsub (r ! 2) (snd target))) rows"
  note p = get_position_data_Inr [OF assms(1), folded data_def, folded rows_def,
      folded speeds_def, folded accs_def, folded dists_def]
  have lr: "length rows = length data" "length speeds = length data" "length dists = length data"
    by (simp_all add: rows_def speeds_def dists_def)
  have la: "length accs = length data"
    using p(2) by (simp add: accs_def lr)
  show lt: "length t = length data" by (simp add: p(4) lr la)
  show "2 \<le> length t" using p(2) lt by simp
  have row: "\<And>i. i < length t \<Longrightarrow>
      t ! i = position_frame_row (rows ! i, speeds ! i, accs ! i, dists ! i)"
    using lt by (simp add: p(4) lr la)
  have r: "\<And>i. i < length t \<Longrightarrow>
      rows ! i = [tok_float (data ! i ! 0), tok_float (data ! i ! 7), tok_float (data ! i ! 8),
                  tok_float (data ! i ! 9), tok_float (data ! i ! 10), tok_float (data ! i ! 11),
                  tok_float (data ! i ! 12)]"
    using lt by (simp add: rows_def)
  have sp: "\<And>i. i < length t \<Longrightarrow> speeds ! i = hypot_sq (rows ! i ! 4) (rows ! i ! 5)"
    using lt by (simp add: speeds_def lr)
  have di: "\<And>i. i < length t \<Longrightarrow>
      dists ! i = hypot_sq (fsub (rows ! i ! 1) (fst target)) (fsub (rows ! i ! 2) (snd target))"
    using lt by (simp add: dists_def lr)
  show "i < length t \<Longrightarrow>
           p_time (t ! i) = tok_float (data ! i ! 0) \<and>
           px (t ! i) = tok_float (data ! i ! 7) \<and>
           py (t ! i) = tok_float (data ! i ! 8) \<and>
           pa (t ! i) = tok_float (data ! i ! 9) \<and>
           vx (t ! i) = tok_float (data ! i ! 10) \<and>
           vy (t ! i) = tok_float (data ! i ! 11) \<and>
           va (t ! i) = tok_float (data ! i ! 12) \<and>
           scalar_speed (t ! i) = hypot_sq (vx (t ! i)) (vy (t ! i)) \<and>
           distance_to_target (t ! i) =
             hypot_sq (fsub (px (t ! i)) (fst target)) (fsub (py (t ! i)) (snd target))"
    by (simp add: row sp di r position_frame_row_def)
  have pos: "0 < length t" using p(2) lt by (cases data) simp_all
  show "a_col (t ! 0) = Num 0"
    using row [OF pos] by (simp add: position_frame_row_def accs_def)
  assume i: "0 < i" "i < length t"
  then obtain k where k: "i = Suc k" by (cases i) simp_all
  have "accs ! i = fdiv (diff speeds ! k) (diff (map (\<lambda>r. r ! 0) rows) ! k)"
    using i lt by (simp add: accs_def k lr)
  also have "diff speeds ! k = fsub (speeds ! Suc k) (speeds ! k)"
    using i lt by (simp add: nth_diff k lr)
  also have "diff (map (\<lambda>r. r ! 0) rows) ! k = fsub (rows ! Suc k ! 0) (rows ! k ! 0)"
    using i lt by (simp add: nth_diff k lr)
  finally have "accs ! i = fdiv (fsub (speeds ! i) (speeds ! (i - 1)))
      (fsub (rows ! i ! 0) (rows ! (i - 1) ! 0))"
    by (simp add: k)
  moreover have "i - 1 < length t" using i by simp
  ultimately show "a_col (t ! i) =
             fdiv (fsub (scalar_speed (t ! i)) (scalar_speed (t ! (i - 1))))
                  (fsub (p_time (t ! i)) (p_time (t ! (i - 1))))"
    using i by (simp add: row position_frame_row_def)
qed

text \<open>
  Claim C7. A position table that \<^verbatim>\<open>get_position_data\<close> builds from \<open>n\<close> data lines
  has \<open>n\<close> rows, hence \<open>n\<close> entries in its column \<^verbatim>\<open>a\<close>. The first entry is the number
  0, and entry \<open>i \<ge> 1\<close> is the difference of the speeds of the rows \<open>i\<close> and \<open>i - 1\<close>
  divided by the difference of their times. (A table is built only from two data lines or
  more.)
\<close>

theorem get_position_data_acceleration:
  assumes "get_position_data position_lines target_position = Inr t"
  shows "let n = length (filter (\<lambda>l. l \<noteq> []) (tl position_lines)) in
           2 \<le> n \<and> length t = n \<and> length (map a_col t) = n \<and>
           a_col (t ! 0) = Num 0 \<and>
           (\<forall>i. 1 \<le> i \<and> i < n \<longrightarrow>
              a_col (t ! i) =
                fdiv (fsub (scalar_speed (t ! i)) (scalar_speed (t ! (i - 1))))
                     (fsub (p_time (t ! i)) (p_time (t ! (i - 1)))))"
proof -
  note r = get_position_data_rows [OF assms]
  show ?thesis
    unfolding Let_def using r(1) r(2) r(4) r(5) by simp
qed

lemma example_position_data_lines:
  "length (filter (\<lambda>l. l \<noteq> []) (tl example_position_lines)) = 3"
  by (simp add: example_position_lines_def log_line_def)

theorem get_position_data_acceleration_witness:
  "get_position_data example_position_lines (Num (- 8), Num (- 7.5)) = Inr example_position_table \<and>
   length example_position_table = 3 \<and>
   map scalar_speed example_position_table = [Num 5, Num 0, Num 10] \<and>
   map p_time example_position_table = [Num 0, Num 1, Num 3] \<and>
   a_col (example_position_table ! 0) = Num 0 \<and>
   a_col (example_position_table ! 1) = fdiv (fsub (Num 0) (Num 5)) (fsub (Num 1) (Num 0)) \<and>
   a_col (example_position_table ! 2) = fdiv (fsub (Num 10) (Num 0)) (fsub (Num 3) (Num 1)) \<and>
   map a_col example_position_table = [Num 0, Num (- 5), Num 5]"
proof -
  note a = get_position_data_acceleration [OF example_position_table_built,
      unfolded Let_def example_position_data_lines]
  from a have l: "length example_position_table = 3" by blast
  from a have z: "a_col (example_position_table ! 0) = Num 0" by blast
  have s: "map scalar_speed example_position_table = [Num 5, Num 0, Num 10]"
    "map p_time example_position_table = [Num 0, Num 1, Num 3]"
    "map a_col example_position_table = [Num 0, Num (- 5), Num 5]"
    by (simp_all add: example_position_table_def)
  have n: "scalar_speed (example_position_table ! 0) = Num 5"
    "scalar_speed (example_position_table ! 1) = Num 0"
    "scalar_speed (example_position_table ! 2) = Num 10"
    "p_time (example_position_table ! 0) = Num 0"
    "p_time (example_position_table ! 1) = Num 1"
    "p_time (example_position_table ! 2) = Num 3"
    "scalar_speed (example_position_table ! Suc 0) = Num 0"
    "p_time (example_position_table ! Suc 0) = Num 1"
    by (simp_all add: example_position_table_def)
  from a have "a_col (example_position_table ! 1) =
      fdiv (fsub (scalar_speed (example_position_table ! 1)) (scalar_speed (example_position_table ! (1 - 1))))
           (fsub (p_time (example_position_table ! 1)) (p_time (example_position_table ! (1 - 1))))"
    by simp
  then have a1: "a_col (example_position_table ! 1) = fdiv (fsub (Num 0) (Num 5)) (fsub (Num 1) (Num 0))"
    by (simp add: n)
  from a have "a_col (example_position_table ! 2) =
      fdiv (fsub (scalar_speed (example_position_table ! 2)) (scalar_speed (example_position_table ! (2 - 1))))
           (fsub (p_time (example_position_table ! 2)) (p_time (example_position_table ! (2 - 1))))"
    by simp
  then have a2: "a_col (example_position_table ! 2) = fdiv (fsub (Num 10) (Num 0)) (fsub (Num 3) (Num 1))"
    by (simp add: n)
  from example_position_table_built l z s a1 a2 show ?thesis by blast
qed

section \<open>A laser stream without data lines\<close>

text \<open>
  Claim C4, as the code has it. When the filtered laser stream is its header line alone,
  \<^verbatim>\<open>np.genfromtxt\<close> returns an empty one-dimensional array, the column slice
  \<^verbatim>\<open>laser_readings[:, :7]\<close> raises IndexError and no laser table is built. Applied to
  a laser table without rows, \<^verbatim>\<open>get_obstacle_data\<close> raises KeyError at
  \<^verbatim>\<open>laser_data.loc[0]\<close>, whatever the position table is.
\<close>

theorem empty_laser_stream_raises:
  "get_laser_data [header] = Inl IndexError \<and>
   get_obstacle_data positions [] = Inl KeyError"
  by (simp add: get_laser_data_def next_line_def genfromtxt_def squeeze_def cols_upto_def
      get_obstacle_data_def)

text \<open>
  The claim as written expects a table without rows from both functions; on a laser stream
  of a header alone and on a laser table without rows both raise.
\<close>

theorem empty_laser_stream_counterexample:
  "get_laser_data [log_line ''laser'' (Num 0) []] \<noteq> Inr [] \<and>
   get_laser_data [log_line ''laser'' (Num 0) []] = Inl IndexError \<and>
   get_obstacle_data example_position_table [] \<noteq> Inr [] \<and>
   get_obstacle_data example_position_table [] = Inl KeyError"
  by (simp add: get_laser_data_def next_line_def genfromtxt_def squeeze_def cols_upto_def
      get_obstacle_data_def)

section \<open>Facts about the array operations\<close>

lemma linspace_Inr:
  assumes "linspace a b c = Inr ys"
  shows "0 \<le> c" and "length ys = nat c"
  using assms by (auto simp: linspace_def Let_def split: if_splits)

lemma linspace_Inl: "linspace a b c = Inl e \<Longrightarrow> e = ValueError"
  by (auto simp: linspace_def Let_def split: if_splits)

lemma repeat_reshape_Inr:
  "repeat_reshape xs n = Inr A \<longleftrightarrow> n \<noteq> 0 \<and> A = Array2 n (map (replicate n) xs)"
  by (auto simp: repeat_reshape_def)

lemma repeat_reshape_Inl: "repeat_reshape xs n = Inl e \<Longrightarrow> e = ValueError"
  by (auto simp: repeat_reshape_def split: if_splits)

lemma stack_Inr:
  "stack rs = Inr A \<longleftrightarrow>
     rs \<noteq> [] \<and> (\<forall>r\<in>set rs. length r = length (hd rs)) \<and> A = Array2 (length (hd rs)) rs"
  by (cases rs) (auto simp: stack_def list_all_iff)

lemma stack_Inl: "stack rs = Inl e \<Longrightarrow> e = ValueError"
  by (auto simp: stack_def split: list.splits if_splits)

lemma bdim_Inl: "bdim m n = Inl e \<Longrightarrow> e = ValueError"
  by (auto simp: bdim_def split: if_splits)

lemma bdim_Inr:
  "bdim m n = Inr k \<longleftrightarrow> (m = n \<and> k = m) \<or> (m = 1 \<and> k = n) \<or> (n = 1 \<and> k = m)"
  by (auto simp: bdim_def)

lemma bdim_mismatch: "2 \<le> m \<Longrightarrow> 2 \<le> n \<Longrightarrow> m \<noteq> n \<Longrightarrow> bdim m n = Inl ValueError"
  by (auto simp: bdim_def)

lemma broadcast2_Inr:
  "broadcast2 f A B = Inr C \<longleftrightarrow>
     (\<exists>m n. bdim (shape0 A) (shape0 B) = Inr m \<and> bdim (shape1 A) (shape1 B) = Inr n \<and>
        C = Array2 n (map (\<lambda>i. map (\<lambda>j. f (bget A i j) (bget B i j)) [0..<n]) [0..<m]))"
  by (auto simp: broadcast2_def bind_exc_Inr_iff)

lemma broadcast2_Inl: "broadcast2 f A B = Inl e \<Longrightarrow> e = ValueError"
  by (auto simp: broadcast2_def bind_exc_def dest: bdim_Inl split: sum.splits)

lemma polar_to_cartesian_Inl: "polar_to_cartesian r th = Inl e \<Longrightarrow> e = ValueError"
  by (auto simp: polar_to_cartesian_def bind_exc_def dest: broadcast2_Inl split: sum.splits)

lemma bind_exc_Inl_iff:
  "bind_exc m body = Inl e \<longleftrightarrow> m = Inl e \<or> (\<exists>x. m = Inr x \<and> body x = Inl e)"
  by (cases m) simp_all

lemma get_obstacle_data_Inl:
  assumes "get_obstacle_data p l = Inl e" "l \<noteq> []"
  shows "e = ValueError"
  using assms
  unfolding get_obstacle_data_def
  by (auto simp: bind_exc_Inl_iff Let_def split: list.splits prod.splits
      dest: linspace_Inl repeat_reshape_Inl stack_Inl polar_to_cartesian_Inl broadcast2_Inl)

lemma polar_to_cartesian_Inr:
  "polar_to_cartesian r th = Inr (x, y) \<longleftrightarrow>
     broadcast2 fmul r (amap fcos th) = Inr x \<and> broadcast2 fmul r (amap fsin th) = Inr y"
  by (auto simp: polar_to_cartesian_def bind_exc_Inr_iff)

lemma get_obstacle_data_steps:
  assumes "get_obstacle_data p l = Inr obs"
  shows "\<exists>laser_angles pas rngs xrel yrel pxs xs pys ys.
           l \<noteq> [] \<and>
           linspace (min_angle (hd l)) (max_angle (hd l)) (count (hd l)) = Inr laser_angles \<and>
           repeat_reshape (map pa p) (length laser_angles) = Inr pas \<and>
           stack (map ranges l) = Inr rngs \<and>
           broadcast2 fmul rngs (amap fcos (add_row pas laser_angles)) = Inr xrel \<and>
           broadcast2 fmul rngs (amap fsin (add_row pas laser_angles)) = Inr yrel \<and>
           repeat_reshape (map px p) (shape1 xrel) = Inr pxs \<and>
           broadcast2 fadd pxs xrel = Inr xs \<and>
           repeat_reshape (map py p) (shape1 xrel) = Inr pys \<and>
           broadcast2 fadd pys yrel = Inr ys \<and>
           obs = map obstacle_frame_row
                   (zip (map l_time l)
                      (zip (arows xs) (zip (arows ys)
                         (map (min_where_not_nan (Num 8)) (arows rngs)))))"
proof (cases l)
  case Nil
  with assms show ?thesis by (simp add: get_obstacle_data_def)
next
  case (Cons first rest)
  with assms show ?thesis
    unfolding get_obstacle_data_def
    by (simp add: bind_exc_Inr_iff Let_def polar_to_cartesian_Inr split: prod.splits) blast
qed

lemma bget_Array2:
  "bget (Array2 c rows) i j = rows ! (if length rows = 1 then 0 else i) ! (if c = 1 then 0 else j)"
  by (simp add: bget_def shape0_def)

lemma bget_direct:
  "i < length rows \<Longrightarrow> j < c \<Longrightarrow> bget (Array2 c rows) i j = rows ! i ! j"
  by (auto simp: bget_Array2)

lemma bdim_index:
  assumes "bdim m n = Inr k" "i < k"
  shows "(if m = 1 then 0 else i) < m" and "(if n = 1 then 0 else i) < n"
  using assms by (auto simp: bdim_Inr)

lemma bdim_again: "bdim m n = Inr k \<Longrightarrow> bdim n k = Inr k"
  by (auto simp: bdim_Inr)

lemma get_obstacle_data_entries:
  assumes "get_obstacle_data p l = Inr obs"
  shows "\<exists>laser_angles R C.
     l \<noteq> [] \<and>
     linspace (min_angle (hd l)) (max_angle (hd l)) (count (hd l)) = Inr laser_angles \<and>
     (\<forall>r\<in>set l. length (ranges r) = length (ranges (hd l))) \<and>
     bdim (length l) (length p) = Inr R \<and>
     bdim (length (ranges (hd l))) (length laser_angles) = Inr C \<and>
     C \<noteq> 0 \<and> laser_angles \<noteq> [] \<and>
     length obs = min (length l) R \<and>
     (\<forall>i<length obs.
        o_time (obs ! i) = l_time (l ! i) \<and>
        distance_to_nearest_obstacle (obs ! i) = min_where_not_nan (Num 8) (ranges (l ! i)) \<and>
        length (obs_x (obs ! i)) = C \<and> length (obs_y (obs ! i)) = C \<and>
        (if length p = 1 then 0 else i) < length p \<and>
        (\<forall>j<C.
           (if length (ranges (hd l)) = 1 then 0 else j) < length (ranges (l ! i)) \<and>
           (if length laser_angles = 1 then 0 else j) < length laser_angles \<and>
           obs_x (obs ! i) ! j =
             fadd (px (p ! (if length p = 1 then 0 else i)))
               (fmul (ranges (l ! i) ! (if length (ranges (hd l)) = 1 then 0 else j))
                  (fcos (fadd (pa (p ! (if length p = 1 then 0 else i)))
                     (laser_angles ! (if length laser_angles = 1 then 0 else j))))) \<and>
           obs_y (obs ! i) ! j =
             fadd (py (p ! (if length p = 1 then 0 else i)))
               (fmul (ranges (l ! i) ! (if length (ranges (hd l)) = 1 then 0 else j))
                  (fsin (fadd (pa (p ! (if length p = 1 then 0 else i)))
                     (laser_angles ! (if length laser_angles = 1 then 0 else j)))))))"
proof -
  from get_obstacle_data_steps [OF assms]
  obtain laser_angles pas rngs xrel yrel pxs xs pys ys where
    ne: "l \<noteq> []" and
    la: "linspace (min_angle (hd l)) (max_angle (hd l)) (count (hd l)) = Inr laser_angles" and
    pas: "repeat_reshape (map pa p) (length laser_angles) = Inr pas" and
    st: "stack (map ranges l) = Inr rngs" and
    xrel: "broadcast2 fmul rngs (amap fcos (add_row pas laser_angles)) = Inr xrel" and
    yrel: "broadcast2 fmul rngs (amap fsin (add_row pas laser_angles)) = Inr yrel" and
    pxs: "repeat_reshape (map px p) (shape1 xrel) = Inr pxs" and
    xs: "broadcast2 fadd pxs xrel = Inr xs" and
    pys: "repeat_reshape (map py p) (shape1 xrel) = Inr pys" and
    ys: "broadcast2 fadd pys yrel = Inr ys" and
    obs: "obs = map obstacle_frame_row
                   (zip (map l_time l)
                      (zip (arows xs) (zip (arows ys)
                         (map (min_where_not_nan (Num 8)) (arows rngs)))))"
    by blast
  define n where "n = length l"
  define m where "m = length p"
  define L where "L = length laser_angles"
  define W where "W = length (ranges (hd l))"
  define ip where "ip = (\<lambda>i::nat. if m = 1 then 0 else i)"
  define jw where "jw = (\<lambda>j::nat. if W = 1 then 0 else j)"
  define jl where "jl = (\<lambda>j::nat. if L = 1 then 0 else j)"
  from pas have L0: "L \<noteq> 0" and pas_eq: "pas = Array2 L (map (replicate L) (map pa p))"
    unfolding repeat_reshape_Inr L_def by simp_all
  have hdm: "hd (map ranges l) = ranges (hd l)" using ne by (simp add: hd_map)
  note st' = st [unfolded stack_Inr hdm, folded W_def]
  from st' have rngs: "rngs = Array2 W (map ranges l)" by blast
  have same: "\<forall>r\<in>set l. length (ranges r) = W"
  proof
    fix r assume "r \<in> set l"
    then have "ranges r \<in> set (map ranges l)" by simp
    with st' show "length (ranges r) = W" by blast
  qed
  define angles where "angles = add_row pas laser_angles"
  have ang: "angles = Array2 L (map (\<lambda>q. map (\<lambda>j. fadd (pa q) (laser_angles ! j)) [0..<L]) p)"
  proof -
    have h: "\<And>q. map (\<lambda>(x, y). fadd x y) (zip (replicate L (pa q)) laser_angles) =
        map (\<lambda>j. fadd (pa q) (laser_angles ! j)) [0..<L]"
      by (rule nth_equalityI) (simp_all add: L_def)
    show ?thesis
      by (simp add: angles_def add_row_def pas_eq comp_def h)
  qed
  have sh: "shape0 rngs = n" "shape1 rngs = W" "shape0 angles = m" "shape1 angles = L"
    by (simp_all add: rngs ang shape0_def n_def m_def)
  have sh': "\<And>f. shape0 (amap f angles) = m" "\<And>f. shape1 (amap f angles) = L"
    using sh(3) by (simp_all add: amap_def shape0_def ang)
  from xrel [folded angles_def, unfolded broadcast2_Inr sh sh']
  obtain R C where R: "bdim n m = Inr R" and C: "bdim W L = Inr C"
    and xrel_eq: "xrel = Array2 C (map (\<lambda>i. map (\<lambda>j. fmul (bget rngs i j) (bget (amap fcos angles) i j)) [0..<C]) [0..<R])"
    by blast
  from yrel [folded angles_def, unfolded broadcast2_Inr sh sh'] R C have
    yrel_eq: "yrel = Array2 C (map (\<lambda>i. map (\<lambda>j. fmul (bget rngs i j) (bget (amap fsin angles) i j)) [0..<C]) [0..<R])"
    by auto
  from pxs have C0: "C \<noteq> 0" and pxs_eq: "pxs = Array2 C (map (replicate C) (map px p))"
    unfolding repeat_reshape_Inr by (simp_all add: xrel_eq)
  from pys have pys_eq: "pys = Array2 C (map (replicate C) (map py p))"
    unfolding repeat_reshape_Inr by (simp_all add: xrel_eq)
  have R2: "bdim m R = Inr R" using R by (rule bdim_again)
  have CC: "bdim C C = Inr C" by (simp add: bdim_def)
  from xs R2 CC have
    xs_eq: "xs = Array2 C (map (\<lambda>i. map (\<lambda>j. fadd (bget pxs i j) (bget xrel i j)) [0..<C]) [0..<R])"
    unfolding broadcast2_Inr by (simp add: pxs_eq xrel_eq shape0_def m_def)
  from ys R2 CC have
    ys_eq: "ys = Array2 C (map (\<lambda>i. map (\<lambda>j. fadd (bget pys i j) (bget yrel i j)) [0..<C]) [0..<R])"
    unfolding broadcast2_Inr by (simp add: pys_eq yrel_eq shape0_def m_def)
  have len: "length obs = min n R"
    by (simp add: obs xs_eq ys_eq rngs n_def)
  have row: "\<And>i. i < length obs \<Longrightarrow>
      obs ! i = obstacle_frame_row (l_time (l ! i), arows xs ! i, arows ys ! i,
                   min_where_not_nan (Num 8) (ranges (l ! i)))"
    using len by (simp add: obs xs_eq ys_eq rngs n_def)
  have entry: "\<And>i j. i < length obs \<Longrightarrow> j < C \<Longrightarrow>
      ip i < m \<and> jw j < W \<and> jl j < L \<and>
      bget pxs i j = px (p ! ip i) \<and> bget pys i j = py (p ! ip i) \<and>
      bget xrel i j = fmul (ranges (l ! i) ! jw j) (fcos (fadd (pa (p ! ip i)) (laser_angles ! jl j))) \<and>
      bget yrel i j = fmul (ranges (l ! i) ! jw j) (fsin (fadd (pa (p ! ip i)) (laser_angles ! jl j)))"
  proof -
    fix i j assume i: "i < length obs" and j: "j < C"
    from i len have iR: "i < R" and i_n: "i < n" by simp_all
    from bdim_index [OF R iR] have ipm: "ip i < m" and "(if n = 1 then 0 else i) < n"
      by (simp_all add: ip_def)
    from bdim_index [OF C j] have jww: "jw j < W" and jll: "jl j < L"
      by (simp_all add: jw_def jl_def)
    have i1: "(if n = 1 then 0 else i) = i" using i_n by auto
    have iR1: "(if R = 1 then 0 else i) = i" using iR by auto
    have jC1: "(if C = 1 then 0 else j) = j" using j by auto
    have a: "bget pxs i j = px (p ! ip i)" "bget pys i j = py (p ! ip i)"
      using ipm j by (simp_all add: pxs_eq pys_eq bget_Array2 ip_def m_def jC1)
    have r: "bget rngs i j = ranges (l ! i) ! jw j"
      using i_n unfolding n_def by (auto simp: rngs bget_Array2 jw_def)
    have c: "bget (amap fcos angles) i j = fcos (fadd (pa (p ! ip i)) (laser_angles ! jl j))"
      "bget (amap fsin angles) i j = fsin (fadd (pa (p ! ip i)) (laser_angles ! jl j))"
      using ipm jll unfolding m_def ip_def jl_def
      by (auto simp: ang amap_def bget_Array2)
    have x: "bget xrel i j = fmul (bget rngs i j) (bget (amap fcos angles) i j)"
      "bget yrel i j = fmul (bget rngs i j) (bget (amap fsin angles) i j)"
      using iR j by (simp_all add: xrel_eq yrel_eq bget_direct)
    from ipm jww jll a x r c show
      "ip i < m \<and> jw j < W \<and> jl j < L \<and>
      bget pxs i j = px (p ! ip i) \<and> bget pys i j = py (p ! ip i) \<and>
      bget xrel i j = fmul (ranges (l ! i) ! jw j) (fcos (fadd (pa (p ! ip i)) (laser_angles ! jl j))) \<and>
      bget yrel i j = fmul (ranges (l ! i) ! jw j) (fsin (fadd (pa (p ! ip i)) (laser_angles ! jl j)))"
      by simp
  qed
  have rowlen: "\<And>i. i < length obs \<Longrightarrow> length (ranges (l ! i)) = W"
    using same len by (simp add: n_def)
  have ipm: "\<And>i. i < length obs \<Longrightarrow> ip i < m"
  proof -
    fix i assume i: "i < length obs"
    with len have "i < R" by simp
    from bdim_index(2) [OF R this] show "ip i < m" by (simp add: ip_def)
  qed
  have main: "\<forall>i<length obs.
        o_time (obs ! i) = l_time (l ! i) \<and>
        distance_to_nearest_obstacle (obs ! i) = min_where_not_nan (Num 8) (ranges (l ! i)) \<and>
        length (obs_x (obs ! i)) = C \<and> length (obs_y (obs ! i)) = C \<and>
        ip i < m \<and>
        (\<forall>j<C.
           jw j < length (ranges (l ! i)) \<and> jl j < L \<and>
           obs_x (obs ! i) ! j =
             fadd (px (p ! ip i)) (fmul (ranges (l ! i) ! jw j)
                  (fcos (fadd (pa (p ! ip i)) (laser_angles ! jl j)))) \<and>
           obs_y (obs ! i) ! j =
             fadd (py (p ! ip i)) (fmul (ranges (l ! i) ! jw j)
                  (fsin (fadd (pa (p ! ip i)) (laser_angles ! jl j)))))"
  proof (intro allI impI)
    fix i assume i: "i < length obs"
    with len have iR: "i < R" by simp
    have x: "arows xs ! i = map (\<lambda>j. fadd (bget pxs i j) (bget xrel i j)) [0..<C]"
      "arows ys ! i = map (\<lambda>j. fadd (bget pys i j) (bget yrel i j)) [0..<C]"
      using iR by (simp_all add: xs_eq ys_eq)
    show "o_time (obs ! i) = l_time (l ! i) \<and>
        distance_to_nearest_obstacle (obs ! i) = min_where_not_nan (Num 8) (ranges (l ! i)) \<and>
        length (obs_x (obs ! i)) = C \<and> length (obs_y (obs ! i)) = C \<and>
        ip i < m \<and>
        (\<forall>j<C.
           jw j < length (ranges (l ! i)) \<and> jl j < L \<and>
           obs_x (obs ! i) ! j =
             fadd (px (p ! ip i)) (fmul (ranges (l ! i) ! jw j)
                  (fcos (fadd (pa (p ! ip i)) (laser_angles ! jl j)))) \<and>
           obs_y (obs ! i) ! j =
             fadd (py (p ! ip i)) (fmul (ranges (l ! i) ! jw j)
                  (fsin (fadd (pa (p ! ip i)) (laser_angles ! jl j)))))"
      using entry [OF i] ipm [OF i] rowlen [OF i]
      by (simp add: row [OF i] obstacle_frame_row_def x)
  qed
  have Lne: "laser_angles \<noteq> []" using L0 by (auto simp: L_def)
  note f1 = same [unfolded W_def]
  note f2 = R [unfolded n_def m_def]
  note f3 = C [unfolded W_def L_def]
  note f4 = len [unfolded n_def]
  note f5 = main [unfolded ip_def jw_def jl_def m_def L_def W_def]
  show ?thesis
    apply (rule exI [of _ laser_angles], rule exI [of _ R], rule exI [of _ C])
    apply (intro conjI)
            apply (rule ne)
           apply (rule la)
          apply (rule f1)
         apply (rule f2)
        apply (rule f3)
       apply (rule C0)
      apply (rule Lne)
     apply (rule f4)
    apply (rule f5)
    done
qed

lemma shape0_Array2: "shape0 (Array2 c rows) = length rows"
  by (simp add: shape0_def)

lemma get_obstacle_data_success:
  assumes "l \<noteq> []" "0 < count (hd l)"
    and "\<forall>r\<in>set l. length (ranges r) = nat (count (hd l))"
    and "length p = length l"
  shows "\<exists>obs. get_obstacle_data p l = Inr obs"
proof -
  define c where "c = nat (count (hd l))"
  have c0: "c \<noteq> 0" using assms(2) by (simp add: c_def)
  obtain laser_angles where
    la: "linspace (min_angle (hd l)) (max_angle (hd l)) (count (hd l)) = Inr laser_angles"
    using assms(2) by (auto simp: linspace_def Let_def)
  have len: "length laser_angles = c" using linspace_Inr(2) [OF la] by (simp add: c_def)
  have rr: "\<And>v. repeat_reshape (map v p) c = Inr (Array2 c (map (replicate c) (map v p)))"
    using c0 by (simp add: repeat_reshape_def)
  have st: "stack (map ranges l) = Inr (Array2 c (map ranges l))"
    unfolding stack_Inr using assms(1,3) by (simp add: hd_map c_def)
  define angles where "angles = add_row (Array2 c (map (replicate c) (map pa p))) laser_angles"
  have sh: "\<And>f. shape0 (amap f angles) = length l" "\<And>f. shape1 (amap f angles) = c"
    by (simp_all add: angles_def add_row_def amap_def shape0_Array2 assms(4))
  have b: "bdim (length l) (length l) = Inr (length l)" "bdim c c = Inr c"
    by (simp_all add: bdim_def)
  have bc: "\<And>f. \<exists>A. broadcast2 fmul (Array2 c (map ranges l)) (amap f angles) = Inr A \<and>
      shape1 A = c \<and> shape0 A = length l"
    by (simp add: broadcast2_def sh b shape0_Array2)
  obtain xrel where x: "broadcast2 fmul (Array2 c (map ranges l)) (amap fcos angles) = Inr xrel"
    "shape1 xrel = c" "shape0 xrel = length l"
    using bc [of fcos] by blast
  obtain yrel where y: "broadcast2 fmul (Array2 c (map ranges l)) (amap fsin angles) = Inr yrel"
    "shape1 yrel = c" "shape0 yrel = length l"
    using bc [of fsin] by blast
  have pc: "polar_to_cartesian (Array2 c (map ranges l)) angles = Inr (xrel, yrel)"
    by (simp add: polar_to_cartesian_Inr x y)
  have bx: "\<And>v A. shape1 A = c \<Longrightarrow> shape0 A = length l \<Longrightarrow>
      \<exists>B. broadcast2 fadd (Array2 c (map (replicate c) (map v p))) A = Inr B"
    by (simp add: broadcast2_def shape0_Array2 b assms(4))
  obtain xs where xs: "broadcast2 fadd (Array2 c (map (replicate c) (map px p))) xrel = Inr xs"
    using bx [OF x(2) x(3), of px] by blast
  obtain ys where ys: "broadcast2 fadd (Array2 c (map (replicate c) (map py p))) yrel = Inr ys"
    using bx [OF y(2) y(3), of py] by blast
  have "get_obstacle_data p l =
      Inr (map obstacle_frame_row
             (zip (map l_time l) (zip (arows xs) (zip (arows ys)
                (map (min_where_not_nan (Num 8)) (arows (Array2 c (map ranges l))))))))"
    unfolding get_obstacle_data_def list.case_eq_if
    by (simp only: assms(1) if_False la bind_exc_simps len rr Let_def st
        angles_def [symmetric] pc prod.case x(2) xs ys)
  then show ?thesis ..
qed

lemma fle_trans: "fle x y \<Longrightarrow> fle y z \<Longrightarrow> fle x z"
  by (cases x; cases y; cases z) auto

lemma fle_antisym: "fle x y \<Longrightarrow> fle y x \<Longrightarrow> x = y"
  by (cases x; cases y) auto

lemma fle_refl: "\<not> isnan x \<Longrightarrow> fle x x"
  by (cases x) auto

lemma fle_not_nan: "fle x y \<Longrightarrow> \<not> isnan x \<and> \<not> isnan y"
  by (cases x; cases y) auto

lemma fminimum_cases:
  assumes "\<not> isnan x" "\<not> isnan y"
  shows "\<not> isnan (fminimum x y)" "fle (fminimum x y) x" "fle (fminimum x y) y"
    "fminimum x y = x \<or> fminimum x y = y"
  using assms fle_total [of x y] by (auto simp: fminimum_def fle_refl)

lemma min_where_fold:
  assumes "\<not> isnan acc"
  shows "\<not> isnan (fold (\<lambda>x acc. if isnan x then acc else fminimum acc x) xs acc) \<and>
         fle (fold (\<lambda>x acc. if isnan x then acc else fminimum acc x) xs acc) acc \<and>
         (\<forall>x\<in>set xs. \<not> isnan x \<longrightarrow>
            fle (fold (\<lambda>x acc. if isnan x then acc else fminimum acc x) xs acc) x) \<and>
         (fold (\<lambda>x acc. if isnan x then acc else fminimum acc x) xs acc = acc \<or>
          fold (\<lambda>x acc. if isnan x then acc else fminimum acc x) xs acc \<in> set xs)"
  using assms
proof (induction xs arbitrary: acc)
  case Nil
  then show ?case by (simp add: fle_refl)
next
  case (Cons x xs)
  let ?f = "\<lambda>x acc. if isnan x then acc else fminimum acc x"
  show ?case
  proof (cases "isnan x")
    case True
    with Cons.IH [OF Cons.prems] show ?thesis by auto
  next
    case False
    note m = fminimum_cases [OF Cons.prems False]
    note ih = Cons.IH [OF m(1)]
    from ih have d: "fle (fold ?f xs (fminimum acc x)) (fminimum acc x)" by blast
    have "fle (fold ?f xs (fminimum acc x)) acc" using d m(2) by (rule fle_trans)
    moreover have "fle (fold ?f xs (fminimum acc x)) x" using d m(3) by (rule fle_trans)
    ultimately show ?thesis using ih m(4) False by auto
  qed
qed

lemma min_where_not_nan_props:
  assumes "\<not> isnan i"
  shows "\<not> isnan (min_where_not_nan i row)" and "fle (min_where_not_nan i row) i"
    and "x \<in> set row \<Longrightarrow> \<not> isnan x \<Longrightarrow> fle (min_where_not_nan i row) x"
    and "min_where_not_nan i row = i \<or>
         (min_where_not_nan i row \<in> set row \<and> \<not> isnan (min_where_not_nan i row))"
  using min_where_fold [OF assms, of row] unfolding min_where_not_nan_def by blast+

lemma min_where_not_nan_all_nan:
  "\<forall>x\<in>set row. isnan x \<Longrightarrow> min_where_not_nan i row = i"
  unfolding min_where_not_nan_def by (induction row arbitrary: i) simp_all

lemma short_position_table_built:
  "get_position_data short_position_lines (Num (- 8), Num (- 7.5)) = Inr short_position_table"
  unfolding get_position_data_def short_position_lines_def short_position_table_def
    example_position_lines_def example_position_table_def
  by (simp add: next_line_def genfromtxt_def log_line_def squeeze_def col_def rows2_def
      position_frame_row_def diff_def hypot_sq_Num fsub_def sqrt_examples)

lemma far_laser_table_built:
  "get_laser_data far_laser_lines = Inr far_laser_table"
  unfolding far_laser_lines_def far_laser_table_def
  using get_laser_data_example [of "replicate 361 (Num 9)"
      "replicate 361 (Num 10)" "log_line ''laser'' (Num 0) []" "Num 0.1" 1 "Num (- 1.5708)"
      "Num 1.5708" "Num 0.0087" "Num 10" 361 "Num 0.2" 2 "Num (- 1.5708)"
      "Num 1.5708" "Num 0.0087" "Num 10" 361]
  by (simp add: where_ge_nan_def fge_def)

lemma get_obstacle_data_distances:
  assumes "get_obstacle_data p l = Inr obs" "length p = length l"
  shows "map distance_to_nearest_obstacle obs = map (\<lambda>r. min_where_not_nan (Num 8) (ranges r)) l"
proof -
  from get_obstacle_data_entries [OF assms(1)] obtain R where
    R: "bdim (length l) (length p) = Inr R" and len: "length obs = min (length l) R" and
    d: "\<And>i. i < length obs \<Longrightarrow>
       distance_to_nearest_obstacle (obs ! i) = min_where_not_nan (Num 8) (ranges (l ! i))"
    by blast
  from R assms(2) have "R = length l" by (simp add: bdim_def)
  with len have "length obs = length l" by simp
  then show ?thesis using d by (intro nth_equalityI) simp_all
qed

lemma fold_replicate_fixed: "f x acc = acc \<Longrightarrow> fold f (replicate n x) acc = acc"
  by (induction n) simp_all

lemma min_where_not_nan_Cons:
  "min_where_not_nan i (x # xs) = min_where_not_nan (if isnan x then i else fminimum i x) xs"
  by (simp add: min_where_not_nan_def)

lemma min_where_not_nan_replicate:
  "fle acc x \<Longrightarrow> min_where_not_nan acc (replicate n x) = acc"
  unfolding min_where_not_nan_def
  by (rule fold_replicate_fixed) (auto simp: fminimum_def dest: fle_not_nan)

lemma min_where_not_nan_examples:
  "min_where_not_nan (Num 8) (Num 3 # NaN # NaN # replicate 358 (Num 5)) = Num 3"
  "min_where_not_nan (Num 8) (replicate 361 NaN) = Num 8"
  "min_where_not_nan (Num 8) (replicate 361 (Num 9)) = Num 8"
  by (simp_all add: min_where_not_nan_Cons min_where_not_nan_replicate
      min_where_not_nan_all_nan fminimum_def)

lemma example_obstacle_success:
  "\<exists>obs. get_obstacle_data short_position_table example_laser_table = Inr obs"
  by (rule get_obstacle_data_success)
     (simp_all add: short_position_table_def example_position_table_def example_laser_table_def)

lemma far_obstacle_success:
  "\<exists>obs. get_obstacle_data short_position_table far_laser_table = Inr obs"
  by (rule get_obstacle_data_success)
     (simp_all add: short_position_table_def example_position_table_def far_laser_table_def)

lemma example_distances:
  "map_sum id (map distance_to_nearest_obstacle)
     (get_obstacle_data short_position_table example_laser_table) = Inr [Num 3, Num 8]"
proof -
  from example_obstacle_success obtain obs where
    obs: "get_obstacle_data short_position_table example_laser_table = Inr obs" ..
  have "length short_position_table = length example_laser_table"
    by (simp add: short_position_table_def example_position_table_def example_laser_table_def)
  from get_obstacle_data_distances [OF obs this]
  have "map distance_to_nearest_obstacle obs = [Num 3, Num 8]"
    by (simp add: example_laser_table_def min_where_not_nan_examples)
  with obs show ?thesis by simp
qed

lemma far_distances:
  "map_sum id (map distance_to_nearest_obstacle)
     (get_obstacle_data short_position_table far_laser_table) = Inr [Num 8, Num 8]"
proof -
  from far_obstacle_success obtain obs where
    obs: "get_obstacle_data short_position_table far_laser_table = Inr obs" ..
  have "length short_position_table = length far_laser_table"
    by (simp add: short_position_table_def example_position_table_def far_laser_table_def)
  from get_obstacle_data_distances [OF obs this]
  have "map distance_to_nearest_obstacle obs = [Num 8, Num 8]"
    by (simp add: far_laser_table_def min_where_not_nan_examples)
  with obs show ?thesis by simp
qed

section \<open>The distance to the nearest obstacle\<close>

text \<open>
  Claim C10. Every distance to the nearest obstacle that \<^verbatim>\<open>get_obstacle_data\<close> produces
  is at most 8: the minimum of a scan starts from the constant 8, whatever maximum range the
  laser log records, so no value above 8 is ever the distance.
\<close>

theorem nearest_obstacle_at_most_8:
  assumes "get_obstacle_data p l = Inr obs"
  shows "\<forall>row\<in>set obs.
           fle (distance_to_nearest_obstacle row) (Num 8) \<and>
           (\<forall>x. flt (Num 8) x \<longrightarrow> distance_to_nearest_obstacle row \<noteq> x)"
proof
  fix row assume "row \<in> set obs"
  then obtain i where i: "i < length obs" "row = obs ! i"
    by (auto simp: in_set_conv_nth)
  from get_obstacle_data_entries [OF assms] i
  have "distance_to_nearest_obstacle row = min_where_not_nan (Num 8) (ranges (l ! i))"
    by blast
  then have d: "fle (distance_to_nearest_obstacle row) (Num 8)"
    using min_where_not_nan_props(2) [where i = "Num 8" and row = "ranges (l ! i)"] by simp
  then show "fle (distance_to_nearest_obstacle row) (Num 8) \<and>
           (\<forall>x. flt (Num 8) x \<longrightarrow> distance_to_nearest_obstacle row \<noteq> x)"
    by (auto simp: flt_def)
qed

theorem nearest_obstacle_at_most_8_witness:
  "map_sum id (map distance_to_nearest_obstacle)
     (get_obstacle_data short_position_table example_laser_table) = Inr [Num 3, Num 8] \<and>
   fle (Num 3) (Num 8) \<and> fle (Num 8) (Num 8)"
proof -
  from example_obstacle_success obtain obs where
    obs: "get_obstacle_data short_position_table example_laser_table = Inr obs" ..
  with example_distances have m: "map distance_to_nearest_obstacle obs = [Num 3, Num 8]"
    by simp
  then have "length obs = 2" by (metis length_map length_Cons list.size(3) numeral_2_eq_2)
  then have "obs ! 0 \<in> set obs" "obs ! 1 \<in> set obs" by simp_all
  with nearest_obstacle_at_most_8 [OF obs]
  have "fle (distance_to_nearest_obstacle (obs ! 0)) (Num 8)"
    "fle (distance_to_nearest_obstacle (obs ! 1)) (Num 8)"
    by blast+
  moreover from m \<open>length obs = 2\<close> have "distance_to_nearest_obstacle (obs ! 0) = Num 3"
    "distance_to_nearest_obstacle (obs ! 1) = Num 8"
    by (metis nth_map nth_Cons_0 zero_less_numeral, metis nth_map nth_Cons_0 nth_Cons_Suc One_nat_def one_less_numeral_iff semiring_norm(76))
  ultimately show ?thesis using example_distances by simp
qed

text \<open>
  Claim C3, as the code has it. The distance of scan \<open>i\<close> is the minimum of the number 8
  and the ranges of the scan that are not NaN: it is a number, at most 8 and at most every
  such range, and it is 8 or one of these ranges. So it is the smallest known range of the
  scan whenever one of them is at most 8, and it is 8 when every beam is unknown and when
  every known range is above 8. The 8 is a constant of the code, not the maximum range of
  the table.
\<close>

theorem nearest_obstacle_distance:
  assumes "get_obstacle_data p l = Inr obs"
  shows "length obs \<le> length l \<and>
         (\<forall>i<length obs.
            let d = distance_to_nearest_obstacle (obs ! i);
                known = filter (\<lambda>x. \<not> isnan x) (ranges (l ! i))
            in \<not> isnan d \<and> fle d (Num 8) \<and> (\<forall>x\<in>set known. fle d x) \<and>
               (d = Num 8 \<or> d \<in> set known) \<and>
               (known = [] \<longrightarrow> d = Num 8) \<and>
               ((\<exists>x\<in>set known. fle x (Num 8)) \<longrightarrow> d \<in> set known))"
proof -
  from get_obstacle_data_entries [OF assms] obtain R where
    len: "length obs = min (length l) R" and
    d: "\<And>i. i < length obs \<Longrightarrow>
       distance_to_nearest_obstacle (obs ! i) = min_where_not_nan (Num 8) (ranges (l ! i))"
    by blast
  have key: "\<And>row. let d = min_where_not_nan (Num 8) row; known = filter (\<lambda>x. \<not> isnan x) row
            in \<not> isnan d \<and> fle d (Num 8) \<and> (\<forall>x\<in>set known. fle d x) \<and>
               (d = Num 8 \<or> d \<in> set known) \<and>
               (known = [] \<longrightarrow> d = Num 8) \<and>
               ((\<exists>x\<in>set known. fle x (Num 8)) \<longrightarrow> d \<in> set known)"
  proof -
    fix row
    define d where "d = min_where_not_nan (Num 8) row"
    define known where "known = filter (\<lambda>x. \<not> isnan x) row"
    have n8: "\<not> isnan (Num 8)" by simp
    note pr = min_where_not_nan_props [OF n8, where row = row, folded d_def]
    have a: "\<not> isnan d" "fle d (Num 8)" by (rule pr)+
    have b: "\<forall>x\<in>set known. fle d x" using pr(3) by (simp add: known_def)
    have c: "d = Num 8 \<or> d \<in> set known" using pr(4) by (auto simp: known_def)
    have e: "known = [] \<longrightarrow> d = Num 8" using c by auto
    have f: "(\<exists>x\<in>set known. fle x (Num 8)) \<longrightarrow> d \<in> set known"
    proof
      assume "\<exists>x\<in>set known. fle x (Num 8)"
      then obtain x where x: "x \<in> set known" "fle x (Num 8)" by blast
      show "d \<in> set known"
      proof (rule disjE [OF c])
        assume "d = Num 8"
        with b x have "fle (Num 8) x" by blast
        with x(2) have "x = Num 8" by (rule fle_antisym)
        with x(1) \<open>d = Num 8\<close> show ?thesis by simp
      qed
    qed
    from a b c e f show "let d = min_where_not_nan (Num 8) row; known = filter (\<lambda>x. \<not> isnan x) row
            in \<not> isnan d \<and> fle d (Num 8) \<and> (\<forall>x\<in>set known. fle d x) \<and>
               (d = Num 8 \<or> d \<in> set known) \<and>
               (known = [] \<longrightarrow> d = Num 8) \<and>
               ((\<exists>x\<in>set known. fle x (Num 8)) \<longrightarrow> d \<in> set known)"
      unfolding Let_def d_def [symmetric] known_def [symmetric] by blast
  qed
  show ?thesis
  proof (intro conjI allI impI)
    show "length obs \<le> length l" using len by simp
  next
    fix i assume i: "i < length obs"
    show "let d = distance_to_nearest_obstacle (obs ! i);
              known = filter (\<lambda>x. \<not> isnan x) (ranges (l ! i))
          in \<not> isnan d \<and> fle d (Num 8) \<and> (\<forall>x\<in>set known. fle d x) \<and>
             (d = Num 8 \<or> d \<in> set known) \<and>
             (known = [] \<longrightarrow> d = Num 8) \<and>
             ((\<exists>x\<in>set known. fle x (Num 8)) \<longrightarrow> d \<in> set known)"
      unfolding d [OF i] by (rule key)
  qed
qed

theorem nearest_obstacle_distance_witness:
  "map_sum id (map distance_to_nearest_obstacle)
     (get_obstacle_data short_position_table example_laser_table) = Inr [Num 3, Num 8] \<and>
   filter (\<lambda>x. \<not> isnan x) (ranges (example_laser_table ! 0)) = Num 3 # replicate 358 (Num 5) \<and>
   filter (\<lambda>x. \<not> isnan x) (ranges (example_laser_table ! 1)) = [] \<and>
   fle (Num 3) (Num 5) \<and> fle (Num 3) (Num 8)"
proof -
  from example_obstacle_success obtain obs where
    obs: "get_obstacle_data short_position_table example_laser_table = Inr obs" ..
  with example_distances have m: "map distance_to_nearest_obstacle obs = [Num 3, Num 8]"
    by simp
  then have l2: "length obs = 2" by (metis length_map length_Cons list.size(3) numeral_2_eq_2)
  with m have d0: "distance_to_nearest_obstacle (obs ! 0) = Num 3"
    by (metis nth_map nth_Cons_0 zero_less_numeral)
  have k0: "filter (\<lambda>x. \<not> isnan x) (ranges (example_laser_table ! 0)) = Num 3 # replicate 358 (Num 5)"
    and k1: "filter (\<lambda>x. \<not> isnan x) (ranges (example_laser_table ! 1)) = []"
    by (simp_all add: example_laser_table_def)
  from nearest_obstacle_distance [OF obs] l2
  have "let d = distance_to_nearest_obstacle (obs ! 0);
            known = filter (\<lambda>x. \<not> isnan x) (ranges (example_laser_table ! 0))
        in \<not> isnan d \<and> fle d (Num 8) \<and> (\<forall>x\<in>set known. fle d x) \<and>
           (d = Num 8 \<or> d \<in> set known) \<and>
           (known = [] \<longrightarrow> d = Num 8) \<and>
           ((\<exists>x\<in>set known. fle x (Num 8)) \<longrightarrow> d \<in> set known)"
    by simp
  then have "fle (Num 3) (Num 8) \<and> (\<forall>x\<in>set (Num 3 # replicate 358 (Num 5)). fle (Num 3) x)"
    unfolding Let_def d0 k0 by blast
  then have "fle (Num 3) (Num 8)" "fle (Num 3) (Num 5)" by simp_all
  with example_distances k0 k1 show ?thesis by blast
qed

text \<open>
  The claim as written fails for a laser whose recorded maximum range is 10: a scan whose
  beams all return 9 gets the distance 8, not its minimum 9, and a scan whose beams are all
  unknown gets 8, not the recorded maximum range 10.
\<close>

theorem fallback_is_8_counterexample:
  "get_laser_data far_laser_lines = Inr far_laser_table \<and>
   get_position_data short_position_lines (Num (- 8), Num (- 7.5)) = Inr short_position_table \<and>
   max_range (far_laser_table ! 0) = Num 10 \<and>
   ranges (far_laser_table ! 0) = replicate 361 (Num 9) \<and>
   ranges (far_laser_table ! 1) = replicate 361 NaN \<and>
   map_sum id (map distance_to_nearest_obstacle)
     (get_obstacle_data short_position_table far_laser_table) = Inr [Num 8, Num 8]"
  using far_laser_table_built short_position_table_built far_distances
  by (simp add: far_laser_table_def)

section \<open>Tables of different row counts\<close>

lemma get_obstacle_data_mismatch:
  assumes "2 \<le> length p" "2 \<le> length l" "length p \<noteq> length l"
  shows "get_obstacle_data p l = Inl ValueError"
proof (cases "get_obstacle_data p l")
  case (Inl e)
  moreover from assms(2) have "l \<noteq> []" by auto
  ultimately show ?thesis using get_obstacle_data_Inl by blast
next
  case (Inr obs)
  from get_obstacle_data_entries [OF Inr] obtain R where
    "bdim (length l) (length p) = Inr R" by blast
  moreover have "bdim (length l) (length p) = Inl ValueError"
    using assms by (intro bdim_mismatch) auto
  ultimately show ?thesis by simp
qed

lemma get_obstacle_data_row_count:
  assumes "get_obstacle_data p l = Inr obs"
  shows "(length p = length l \<or> length p = 1 \<or> length l = 1) \<and>
         length obs = (if length l = 1 then min 1 (length p) else length l)"
proof -
  from get_obstacle_data_entries [OF assms] obtain R where
    R: "bdim (length l) (length p) = Inr R" and len: "length obs = min (length l) R"
    by blast
  from R len show ?thesis by (auto simp: bdim_Inr)
qed

text \<open>
  Claim C5, as the code has it. \<^verbatim>\<open>get_obstacle_data\<close> multiplies the array of the
  ranges, one row per scan, with the array of the angles, one row per position sample. When
  the two tables have different numbers of rows and each has two rows or more, the two
  arrays cannot be broadcast and the call raises ValueError: nothing is truncated and no
  table is returned. Every table that \<^verbatim>\<open>get_laser_data\<close> or
  \<^verbatim>\<open>get_position_data\<close> builds has two rows or more, so this is what happens for the
  tables of one log. A call that returns has tables of equal row counts or a table of one
  row, which is broadcast: the output then has the row count of the laser table, or at most
  one row when the laser table has one.
\<close>

theorem row_count_mismatch_raises:
  "(2 \<le> length positions \<and> 2 \<le> length lasers \<and> length positions \<noteq> length lasers \<longrightarrow>
      get_obstacle_data positions lasers = Inl ValueError) \<and>
   (get_laser_data laser_lines = Inr ld \<and> get_position_data position_lines target = Inr pd \<and>
    length ld \<noteq> length pd \<longrightarrow>
      get_obstacle_data pd ld = Inl ValueError) \<and>
   (get_obstacle_data positions lasers = Inr obs \<longrightarrow>
      (length positions = length lasers \<or> length positions = 1 \<or> length lasers = 1) \<and>
      length obs = (if length lasers = 1 then min 1 (length positions) else length lasers))"
proof (intro conjI impI)
  assume "2 \<le> length positions \<and> 2 \<le> length lasers \<and> length positions \<noteq> length lasers"
  then show "get_obstacle_data positions lasers = Inl ValueError"
    by (intro get_obstacle_data_mismatch) auto
next
  assume a: "get_laser_data laser_lines = Inr ld \<and>
    get_position_data position_lines target = Inr pd \<and> length ld \<noteq> length pd"
  then have "2 \<le> length ld" "2 \<le> length pd"
    using get_laser_data_rows(2) get_position_data_rows(2) by blast+
  with a show "get_obstacle_data pd ld = Inl ValueError"
    by (intro get_obstacle_data_mismatch) auto
next
  assume "get_obstacle_data positions lasers = Inr obs"
  then show "length positions = length lasers \<or> length positions = 1 \<or> length lasers = 1"
    and "length obs = (if length lasers = 1 then min 1 (length positions) else length lasers)"
    using get_obstacle_data_row_count by blast+
qed

theorem row_count_mismatch_raises_witness:
  "get_laser_data example_laser_lines = Inr example_laser_table \<and>
   get_position_data example_position_lines (Num (- 8), Num (- 7.5)) = Inr example_position_table \<and>
   length example_laser_table \<noteq> length example_position_table \<and>
   get_obstacle_data example_position_table example_laser_table = Inl ValueError"
proof -
  have n: "length example_laser_table \<noteq> length example_position_table"
    by (simp add: example_laser_table_def example_position_table_def)
  from row_count_mismatch_raises [of _ _ example_laser_lines example_laser_table
      example_position_lines "(Num (- 8), Num (- 7.5))" example_position_table]
    example_laser_table_built example_position_table_built n
  have "get_obstacle_data example_position_table example_laser_table = Inl ValueError"
    by blast
  with example_laser_table_built example_position_table_built n show ?thesis by blast
qed

text \<open>
  The claim as written expects two output rows from a laser table of two rows and a
  position table of three; the call raises instead.
\<close>

theorem no_truncation_counterexample:
  "length example_laser_table = 2 \<and> length example_position_table = 3 \<and>
   get_obstacle_data example_position_table example_laser_table = Inl ValueError"
proof -
  have n: "length example_laser_table = 2" "length example_position_table = 3"
    by (simp_all add: example_laser_table_def example_position_table_def)
  then have "get_obstacle_data example_position_table example_laser_table = Inl ValueError"
    by (intro get_obstacle_data_mismatch) simp_all
  with n show ?thesis by simp
qed

section \<open>The projection of the beams\<close>










section \<open>Facts about the grouping\<close>

text \<open>
  When the records of one key are adjacent in the input, so that no key starts two groups,
  \<^verbatim>\<open>group_by\<close> files every record under its key, and the two-level grouping files
  every record under its algorithm and difficulty.
\<close>

lemma groupby_concat: "concat (map snd (groupby xs f)) = xs"
  by (induction xs) (auto split: list.splits)

lemma groupby_all_keys:
  "\<forall>(k, g)\<in>set (groupby xs f). g \<noteq> [] \<and> (\<forall>x\<in>set g. f x = k)"
  by (induction xs) (fastforce split: list.splits if_splits)+

lemma groupby_keys:
  "(k, g) \<in> set (groupby xs f) \<Longrightarrow> g \<noteq> [] \<and> (\<forall>x\<in>set g. f x = k)"
  using groupby_all_keys [of xs f] by blast

lemma fold_update_map_of:
  "fold (\<lambda>(k, g) d. d(k \<mapsto> g)) ps m = m ++ map_of (rev ps)"
  by (induction ps arbitrary: m) (auto simp: map_add_def fun_eq_iff split: option.splits)

lemma group_by_lookup:
  assumes "distinct (map fst (groupby xs f))"
  shows "group_by xs f k = Some g \<longleftrightarrow> (k, g) \<in> set (groupby xs f)"
proof -
  have "group_by xs f = map_of (rev (groupby xs f))"
    by (simp add: group_by_def fold_update_map_of)
  moreover have "distinct (map fst (rev (groupby xs f)))"
    using assms by (simp add: rev_map [symmetric])
  ultimately show ?thesis by (simp add: map_of_eq_Some_iff)
qed

lemma filter_groups:
  assumes "distinct (map fst gs)" and "\<forall>(k', g')\<in>set gs. \<forall>x\<in>set g'. f x = k'"
  shows "filter (\<lambda>x. f x = k) (concat (map snd gs)) =
         (case map_of gs k of None \<Rightarrow> [] | Some g \<Rightarrow> g)"
  using assms
proof (induction gs)
  case Nil
  then show ?case by simp
next
  case (Cons p gs)
  obtain k' g' where p: "p = (k', g')" by (cases p)
  from Cons.prems p have all: "\<forall>x\<in>set g'. f x = k'" by auto
  from Cons.prems p have notin: "k' \<notin> fst ` set gs" by auto
  show ?case
  proof (cases "k = k'")
    case True
    with notin have "map_of gs k = None" by (simp add: map_of_eq_None_iff)
    with Cons.IH Cons.prems have "filter (\<lambda>x. f x = k) (concat (map snd gs)) = []" by simp
    moreover from all True have "filter (\<lambda>x. f x = k) g' = g'" by (simp add: filter_id_conv)
    ultimately show ?thesis using True by (simp add: p)
  next
    case False
    with all have "filter (\<lambda>x. f x = k) g' = []" by (auto simp: filter_empty_conv)
    with Cons.IH Cons.prems False show ?thesis by (simp add: p)
  qed
qed

lemma group_by_adjacent:
  assumes "distinct (map fst (groupby xs f))"
  shows "group_by xs f k = (if k \<in> f ` set xs then Some (filter (\<lambda>x. f x = k) xs) else None)"
proof -
  have keys: "\<forall>(k', g')\<in>set (groupby xs f). \<forall>x\<in>set g'. f x = k'"
    using groupby_keys by fastforce
  have m: "group_by xs f = map_of (groupby xs f)"
    using group_by_lookup [OF assms] assms
    by (intro ext) (metis map_of_eq_Some_iff not_Some_eq)
  have fl: "filter (\<lambda>x. f x = k) xs =
      (case map_of (groupby xs f) k of None \<Rightarrow> [] | Some g \<Rightarrow> g)"
    using filter_groups [OF assms keys, of k] by (simp add: groupby_concat)
  show ?thesis
  proof (cases "map_of (groupby xs f) k")
    case None
    with fl have "filter (\<lambda>x. f x = k) xs = []" by simp
    then have "k \<notin> f ` set xs" by (auto simp: filter_empty_conv)
    with None m show ?thesis by simp
  next
    case (Some g)
    then have "(k, g) \<in> set (groupby xs f)" by (rule map_of_SomeD)
    with groupby_keys [of k g xs f] obtain x where "x \<in> set g" "f x = k"
      by (cases g) auto
    moreover have "set g \<subseteq> set xs"
      using \<open>(k, g) \<in> set (groupby xs f)\<close> groupby_concat [of xs f]
      by (metis (no_types, lifting) UN_I image_eqI set_concat set_map snd_conv subsetI)
    ultimately have "k \<in> f ` set xs" by auto
    with Some fl m show ?thesis by simp
  qed
qed

lemma bucket_adjacent:
  assumes "distinct (map fst (groupby logs (\<lambda>ld. algorithm (metadata ld))))"
    and "\<forall>a. distinct (map fst (groupby (filter (\<lambda>ld. algorithm (metadata ld) = a) logs)
                                 (\<lambda>ld. difficulty (metadata ld))))"
  shows "bucket logs a d =
         filter (\<lambda>ld. algorithm (metadata ld) = a \<and> difficulty (metadata ld) = d) logs"
proof -
  let ?alg = "\<lambda>ld. algorithm (metadata ld)"
  let ?dif = "\<lambda>ld. difficulty (metadata ld)"
  note outer = group_by_adjacent [OF assms(1), of a]
  from assms(2) have "distinct (map fst (groupby (filter (\<lambda>ld. ?alg ld = a) logs) ?dif))"
    by blast
  note inner = group_by_adjacent [OF this, of d]
  have f: "filter (\<lambda>ld. ?dif ld = d) (filter (\<lambda>ld. ?alg ld = a) logs) =
      filter (\<lambda>ld. ?alg ld = a \<and> ?dif ld = d) logs"
    by (simp add: conj_commute)
  show ?thesis
  proof (cases "a \<in> ?alg ` set logs")
    case False
    then have "filter (\<lambda>ld. ?alg ld = a \<and> ?dif ld = d) logs = []"
      by (auto simp: filter_empty_conv)
    with False outer show ?thesis
      by (simp add: bucket_def group_by_algorithm_and_difficulty_def)
  next
    case True
    show ?thesis
    proof (cases "d \<in> ?dif ` set (filter (\<lambda>ld. ?alg ld = a) logs)")
      case False
      then have "filter (\<lambda>ld. ?alg ld = a \<and> ?dif ld = d) logs = []"
        by (auto simp: filter_empty_conv)
      with True False outer inner show ?thesis
        by (simp add: bucket_def group_by_algorithm_and_difficulty_def)
    next
      case d: True
      with True outer inner f show ?thesis
        by (simp add: bucket_def group_by_algorithm_and_difficulty_def)
    qed
  qed
qed

lemma interleaved_groups:
  "group_by interleaved_logs (\<lambda>ld. algorithm (metadata ld)) =
     [''vfh'' \<mapsto> [log_record ''logs/vfh.old/easy/run.log'' ''vfh'' ''easy''],
      ''nd'' \<mapsto> [log_record ''logs/nd/easy/run.log'' ''nd'' ''easy'']]"
  by (rule ext) (simp add: group_by_def interleaved_logs_def log_record_def)

section \<open>Grouping the logs\<close>

text \<open>
  Claim C8 against the code. \<^verbatim>\<open>itertools.groupby\<close> starts a new group at every change
  of the key, and the dictionary comprehension of \<^verbatim>\<open>group_by\<close> keeps the last group
  of a key only. On three records whose algorithms read \<^verbatim>\<open>vfh\<close>, \<^verbatim>\<open>nd\<close>,
  \<^verbatim>\<open>vfh\<close> in this order, the first record is in no bucket at all.
\<close>

theorem interleaved_record_is_dropped:
  "bucket interleaved_logs ''vfh'' ''easy'' = [log_record ''logs/vfh.old/easy/run.log'' ''vfh'' ''easy''] \<and>
   bucket interleaved_logs ''nd'' ''easy'' = [log_record ''logs/nd/easy/run.log'' ''nd'' ''easy''] \<and>
   (\<forall>alg dif. log_record ''logs/vfh/easy/run.log'' ''vfh'' ''easy'' \<notin> set (bucket interleaved_logs alg dif))"
proof -
  have b: "\<And>alg dif. bucket interleaved_logs alg dif =
      (if alg = ''vfh'' \<and> dif = ''easy'' then [log_record ''logs/vfh.old/easy/run.log'' ''vfh'' ''easy'']
       else if alg = ''nd'' \<and> dif = ''easy'' then [log_record ''logs/nd/easy/run.log'' ''nd'' ''easy'']
       else [])"
    unfolding bucket_def group_by_algorithm_and_difficulty_def Let_def interleaved_groups
    by (simp add: group_by_def log_record_def)
  have n: "log_record ''logs/vfh/easy/run.log'' ''vfh'' ''easy'' \<noteq> log_record ''logs/vfh.old/easy/run.log'' ''vfh'' ''easy''"
    "log_record ''logs/vfh/easy/run.log'' ''vfh'' ''easy'' \<noteq> log_record ''logs/nd/easy/run.log'' ''nd'' ''easy''"
    by (simp_all add: log_record_def)
  show ?thesis using n by (simp add: b)
qed

section \<open>The target of a log\<close>

lemma read_log_example:
  "read_log example_files ''logs/vfh/unheard_of/run.log'' ''laser'' = Inr example_laser_lines"
  "read_log example_files ''logs/vfh/unheard_of/run.log'' ''position2d'' = Inr short_position_lines"
  by (simp_all add: read_log_def example_files_def example_laser_lines_def
      short_position_lines_def example_position_lines_def laser_log_line_def log_line_def)

lemma example_log_position_data:
  "map_sum id position_data (get_log_data example_files unheard_of_metadata) = Inr short_position_table"
proof -
  from example_obstacle_success obtain obs where
    obs: "get_obstacle_data short_position_table example_laser_table = Inr obs" ..
  have p: "path unheard_of_metadata = ''logs/vfh/unheard_of/run.log''"
    and t: "(difficulty unheard_of_metadata = ''realistic'') = False"
    by (simp_all add: unheard_of_metadata_def)
  have "get_log_data example_files unheard_of_metadata =
      Inr \<lparr>metadata = unheard_of_metadata, laser_data = example_laser_table,
           position_data = short_position_table, obstacle_data = obs\<rparr>"
    unfolding get_log_data_def
    by (simp only: p t read_log_example bind_exc_simps example_laser_table_built Let_def if_False
        short_position_table_built obs)
  then show ?thesis by simp
qed

lemma map_sum_bind_exc:
  "map_sum id g (bind_exc m body) = bind_exc m (\<lambda>x. map_sum id g (body x))"
  by (cases m) simp_all

text \<open>
  Claim C9. For a difficulty tag other than \<^verbatim>\<open>realistic\<close>, recognised or not,
  \<^verbatim>\<open>get_log_data\<close> measures the distance to the target \<open>(-8, -7.5)\<close> in every row of
  the position table it returns, and what it returns or raises is the same for all such
  tags, the metadata apart: no exception depends on the tag. The witness is a log under a
  tag that is no preset, for which the call returns.
\<close>

theorem other_difficulty_falls_back:
  assumes "difficulty md \<noteq> ''realistic''"
  shows "(\<forall>d. get_log_data fs md = Inr d \<longrightarrow>
            (\<forall>row\<in>set (position_data d).
               distance_to_target row =
                 hypot_sq (fsub (px row) (Num (- 8))) (fsub (py row) (Num (- 7.5))))) \<and>
         (\<forall>tag. tag \<noteq> ''realistic'' \<longrightarrow>
            map_sum id (\<lambda>d. (laser_data d, position_data d, obstacle_data d))
              (get_log_data fs (md\<lparr>difficulty := tag\<rparr>)) =
            map_sum id (\<lambda>d. (laser_data d, position_data d, obstacle_data d))
              (get_log_data fs md))"
proof (intro conjI allI impI ballI)
  fix d row
  assume d: "get_log_data fs md = Inr d" and row: "row \<in> set (position_data d)"
  from d assms obtain position_lines where
    "get_position_data position_lines (Num (- 8), Num (- 7.5)) = Inr (position_data d)"
    unfolding get_log_data_def by (auto simp: bind_exc_Inr_iff)
  note r = get_position_data_rows(3) [OF this]
  from row obtain i where "i < length (position_data d)" "row = position_data d ! i"
    by (auto simp: in_set_conv_nth)
  with r [of i] show "distance_to_target row =
                 hypot_sq (fsub (px row) (Num (- 8))) (fsub (py row) (Num (- 7.5)))"
    by simp
next
  fix tag :: string
  assume "tag \<noteq> ''realistic''"
  with assms show "map_sum id (\<lambda>d. (laser_data d, position_data d, obstacle_data d))
              (get_log_data fs (md\<lparr>difficulty := tag\<rparr>)) =
            map_sum id (\<lambda>d. (laser_data d, position_data d, obstacle_data d))
              (get_log_data fs md)"
    by (simp add: get_log_data_def map_sum_bind_exc)
qed

theorem other_difficulty_falls_back_witness:
  "difficulty unheard_of_metadata \<noteq> ''realistic'' \<and>
   map_sum id position_data (get_log_data example_files unheard_of_metadata) = Inr short_position_table \<and>
   distance_to_target (short_position_table ! 0) =
     hypot_sq (fsub (Num (- 5)) (Num (- 8))) (fsub (Num (- 3.5)) (Num (- 7.5))) \<and>
   map distance_to_target short_position_table = [Num 5, Num 0]"
proof -
  have t: "difficulty unheard_of_metadata \<noteq> ''realistic''"
    by (simp add: unheard_of_metadata_def)
  obtain d where d: "get_log_data example_files unheard_of_metadata = Inr d"
    and p: "position_data d = short_position_table"
  proof (cases "get_log_data example_files unheard_of_metadata")
    case (Inl e)
    with example_log_position_data show ?thesis by simp
  next
    case (Inr d)
    with example_log_position_data have "position_data d = short_position_table" by simp
    with Inr show ?thesis by (rule that)
  qed
  note th = other_difficulty_falls_back [OF t, of example_files, THEN conjunct1, rule_format, OF d]
  have v: "short_position_table ! 0 \<in> set short_position_table"
    "px (short_position_table ! 0) = Num (- 5)" "py (short_position_table ! 0) = Num (- 3.5)"
    "map distance_to_target short_position_table = [Num 5, Num 0]"
    by (simp_all add: short_position_table_def example_position_table_def)
  from v(1) have "short_position_table ! 0 \<in> set (position_data d)" by (simp only: p)
  from th [OF this] have "distance_to_target (short_position_table ! 0) =
     hypot_sq (fsub (Num (- 5)) (Num (- 8))) (fsub (Num (- 3.5)) (Num (- 7.5)))"
    by (simp only: v(2) v(3))
  with t example_log_position_data v(4) show ?thesis by (intro conjI)
qed

end
